theory Spec2Isabelle
  imports Complex_Main "HOL-Library.Word" "HOL-Library.Signed_Division" "HOL-Library.AList"
begin

section \<open>OTLP values and Go attribute maps\<close>

text \<open>
  \<open>pcommon.Value\<close> is the typed union of an OTLP attribute value; \<open>pcommon.Map\<close> is a
  slice of key/value pairs, visited by \<open>Range\<close> in slice order. A Go \<open>float64\<close> is
  carried as a \<open>real\<close>: no function below computes with an attribute's number.
\<close>

datatype Value =
    ValueTypeEmpty
  | ValueTypeStr string
  | ValueTypeInt int
  | ValueTypeDouble real
  | ValueTypeBool bool
  | ValueTypeMap "(string \<times> Value) list"
  | ValueTypeSlice "Value list"
  | ValueTypeBytes "8 word list"

type_synonym pcommon_Map = "(string \<times> Value) list"

text \<open>
  A Go \<open>interface{}\<close> as the transformers build it. A Go map \<open>map[string]interface{}\<close>
  is an association list read with \<open>map_of\<close> and written with \<open>AList.update\<close>; the
  \<open>nil\<close> map is \<open>None\<close>: reading and ranging over it behave as on the empty map, writing
  to it panics.
\<close>

datatype iface =
    INil
  | IStr string
  | IInt int
  | IUint nat
  | IDouble real
  | IBool bool
  | IMap "(string \<times> iface) list option"
  | ISlice "iface list"

type_synonym gomap = "(string \<times> iface) list option"

definition entries :: "gomap \<Rightarrow> (string \<times> iface) list" where
  "entries m = (case m of None \<Rightarrow> [] | Some kvs \<Rightarrow> kvs)"

definition lookup :: "gomap \<Rightarrow> string \<Rightarrow> iface option" where
  "lookup m k = map_of (entries m) k"

definition hexdigit :: "nat \<Rightarrow> char" where
  "hexdigit n = ''0123456789abcdef'' ! n"

definition hex_byte :: "8 word \<Rightarrow> string" where
  "hex_byte b = [hexdigit (unat b div 16), hexdigit (unat b mod 16)]"

definition hex_EncodeToString :: "8 word list \<Rightarrow> string" where
  "hex_EncodeToString bs = concat (map hex_byte bs)"

text \<open>
  \<open>result[k] = v\<close> for each pair in order, into a fresh map: a later pair with the same key
  overwrites an earlier one.
\<close>

definition put_all :: "(string \<times> iface) list \<Rightarrow> (string \<times> iface) list \<Rightarrow> (string \<times> iface) list" where
  "put_all kvs result = fold (\<lambda>(k, v) r. AList.update k v r) kvs result"

text \<open>
  \<open>valueToInterface\<close> and \<open>attributesToMap\<close>, mutually recursive in the source;
  \<open>attrs_entries\<close> converts the values of a collection, pair by pair.
\<close>

fun valueToInterface :: "Value \<Rightarrow> iface"
  and attrs_entries :: "(string \<times> Value) list \<Rightarrow> (string \<times> iface) list"
  and slice_entries :: "Value list \<Rightarrow> iface list" where
  "valueToInterface ValueTypeEmpty = INil"
| "valueToInterface (ValueTypeStr s) = IStr s"
| "valueToInterface (ValueTypeInt i) = IInt i"
| "valueToInterface (ValueTypeDouble d) = IDouble d"
| "valueToInterface (ValueTypeBool b) = IBool b"
| "valueToInterface (ValueTypeMap kvs) =
     IMap (if kvs = [] then None else Some (put_all (attrs_entries kvs) []))"
| "valueToInterface (ValueTypeSlice vs) = ISlice (slice_entries vs)"
| "valueToInterface (ValueTypeBytes bs) = IStr (hex_EncodeToString bs)"
| "attrs_entries [] = []"
| "attrs_entries ((k, v) # kvs) = (k, valueToInterface v) # attrs_entries kvs"
| "slice_entries [] = []"
| "slice_entries (v # vs) = valueToInterface v # slice_entries vs"

text \<open>\<open>attributesToMap\<close>: \<open>nil\<close> for an empty collection.\<close>

definition attributesToMap :: "pcommon_Map \<Rightarrow> gomap" where
  "attributesToMap attrs =
     (if length attrs = 0 then None
      else Some (put_all (attrs_entries attrs) []))"

text \<open>\<open>extractServiceName\<close>: the type assertion succeeds on a string only.\<close>

definition extractServiceName :: "gomap \<Rightarrow> string" where
  "extractServiceName attrs =
     (case lookup attrs ''service.name'' of Some (IStr name) \<Rightarrow> name | _ \<Rightarrow> ''unknown'')"

text \<open>
  \<open>mergeAttributes\<close>: a fresh non-nil map, filled from \<open>m1\<close> and then from \<open>m2\<close>.
\<close>

definition mergeAttributes :: "gomap \<Rightarrow> gomap \<Rightarrow> gomap" where
  "mergeAttributes m1 m2 =
     Some (put_all (entries m2) (put_all (entries m1) []))"

section \<open>The trace transformer\<close>

text \<open>
  The OTLP input. A \<open>pcommon.Timestamp\<close> is a \<open>uint64\<close> of nanoseconds; trace and span
  identifiers are byte arrays; the status code and the span kind are \<open>int32\<close> enums.
\<close>

record SpanEvent_otlp =
  event_Name :: string
  event_Timestamp :: "64 word"
  event_Attributes :: pcommon_Map

record SpanLink_otlp =
  link_TraceID :: "8 word list"
  link_SpanID :: "8 word list"
  link_Attributes :: pcommon_Map

record Span_otlp =
  span_TraceID :: "8 word list"
  span_SpanID :: "8 word list"
  span_ParentSpanID :: "8 word list"
  span_Name :: string
  span_Kind :: int
  span_StartTimestamp :: "64 word"
  span_EndTimestamp :: "64 word"
  span_StatusCode :: int
  span_StatusMessage :: string
  span_Attributes :: pcommon_Map
  span_Events :: "SpanEvent_otlp list"
  span_Links :: "SpanLink_otlp list"

record ScopeSpans =
  Spans_of :: "Span_otlp list"

record ResourceSpans =
  rs_Resource_Attributes :: pcommon_Map
  rs_ScopeSpans :: "ScopeSpans list"

type_synonym ptrace_Traces = "ResourceSpans list"

text \<open>
  \<open>IsEmpty\<close> and \<open>String\<close> of \<open>pcommon.TraceID\<close> and \<open>pcommon.SpanID\<close>: the all-zero
  identifier is empty and prints as the empty string, any other one as lower-case hex.
\<close>

definition IsEmpty :: "8 word list \<Rightarrow> bool" where
  "IsEmpty bs = list_all (\<lambda>b. b = 0) bs"

definition ID_String :: "8 word list \<Rightarrow> string" where
  "ID_String bs = (if IsEmpty bs then [] else hex_EncodeToString bs)"

text \<open>
  A \<open>time.Time\<close> is its number of nanoseconds since the Unix epoch, an \<open>int\<close>.
  \<open>time.Unix(0, int64(ts))\<close> reads the \<open>uint64\<close> as a two's complement \<open>int64\<close>.
  \<open>Before\<close> and \<open>After\<close> are strict. \<open>Sub\<close> saturates at the bounds of \<open>int64\<close>;
  \<open>Milliseconds\<close> divides the nanoseconds by \<open>10^6\<close>, truncating towards zero.
\<close>

type_synonym Time = int

definition time_Unix0 :: "64 word \<Rightarrow> Time" where
  "time_Unix0 ts = sint ts"

definition Before :: "Time \<Rightarrow> Time \<Rightarrow> bool" where
  "Before t u = (t < u)"

definition After :: "Time \<Rightarrow> Time \<Rightarrow> bool" where
  "After t u = (t > u)"

definition Sub :: "Time \<Rightarrow> Time \<Rightarrow> int" where
  "Sub t u =
     (let d = t - u in
      if d > 2 ^ 63 - 1 then 2 ^ 63 - 1
      else if d < - (2 ^ 63) then - (2 ^ 63)
      else d)"

definition Milliseconds :: "int \<Rightarrow> int" where
  "Milliseconds d = d sdiv 1000000"

text \<open>The stored model, \<open>store.Trace\<close>, \<open>store.Span\<close>, \<open>store.SpanEvent\<close>, \<open>store.SpanLink\<close>.\<close>

record SpanEvent =
  SpanEvent_Name :: string
  SpanEvent_Timestamp :: Time
  SpanEvent_Attributes :: gomap

record SpanLink =
  SpanLink_TraceID :: string
  SpanLink_SpanID :: string
  SpanLink_Attributes :: gomap

record Span =
  Span_SpanID :: string
  Span_TraceID :: string
  Span_ParentSpanID :: "string option"
  Span_ServiceName :: string
  Span_OperationName :: string
  Span_SpanKind :: string
  Span_StartTime :: Time
  Span_EndTime :: Time
  Span_DurationMs :: int
  Span_StatusCode :: int
  Span_StatusMessage :: "string option"
  Span_Attributes :: gomap
  Span_Events :: "SpanEvent list"
  Span_Links :: "SpanLink list"

record Trace =
  Trace_TraceID :: string
  Trace_ServiceName :: string
  Trace_OperationName :: string
  Trace_StartTime :: Time
  Trace_EndTime :: Time
  Trace_DurationMs :: int
  Trace_SpanCount :: int
  Trace_ErrorCount :: int
  Trace_StatusCode :: int
  Trace_Attributes :: gomap
  Trace_Spans :: "Span list"

definition spanKindToString :: "int \<Rightarrow> string" where
  "spanKindToString kind =
     (if kind = 1 then ''internal''
      else if kind = 2 then ''server''
      else if kind = 3 then ''client''
      else if kind = 4 then ''producer''
      else if kind = 5 then ''consumer''
      else ''unspecified'')"

definition StatusCodeError :: int where
  "StatusCodeError = 2"

definition convertEvents :: "SpanEvent_otlp list \<Rightarrow> SpanEvent list" where
  "convertEvents events =
     map (\<lambda>event. \<lparr>SpanEvent_Name = event_Name event,
                   SpanEvent_Timestamp = time_Unix0 (event_Timestamp event),
                   SpanEvent_Attributes = attributesToMap (event_Attributes event)\<rparr>) events"

definition convertLinks :: "SpanLink_otlp list \<Rightarrow> SpanLink list" where
  "convertLinks links =
     map (\<lambda>link. \<lparr>SpanLink_TraceID = ID_String (link_TraceID link),
                  SpanLink_SpanID = ID_String (link_SpanID link),
                  SpanLink_Attributes = attributesToMap (link_Attributes link)\<rparr>) links"

text \<open>
  The converted span. Its duration is the \<open>uint64\<close> difference of the two timestamps,
  read as an \<open>int64\<close> and divided by \<open>10^6\<close>, truncating.
\<close>

definition convertSpan :: "string \<Rightarrow> Span_otlp \<Rightarrow> Span" where
  "convertSpan serviceName sp =
     \<lparr>Span_SpanID = ID_String (span_SpanID sp),
      Span_TraceID = ID_String (span_TraceID sp),
      Span_ParentSpanID =
        (if \<not> IsEmpty (span_ParentSpanID sp) then Some (ID_String (span_ParentSpanID sp))
         else None),
      Span_ServiceName = serviceName,
      Span_OperationName = span_Name sp,
      Span_SpanKind = spanKindToString (span_Kind sp),
      Span_StartTime = time_Unix0 (span_StartTimestamp sp),
      Span_EndTime = time_Unix0 (span_EndTimestamp sp),
      Span_DurationMs = sint (span_EndTimestamp sp - span_StartTimestamp sp) sdiv 1000000,
      Span_StatusCode = span_StatusCode sp,
      Span_StatusMessage =
        (if span_StatusMessage sp \<noteq> [] then Some (span_StatusMessage sp) else None),
      Span_Attributes = attributesToMap (span_Attributes sp),
      Span_Events = convertEvents (span_Events sp),
      Span_Links = convertLinks (span_Links sp)\<rparr>"

text \<open>
  The two working maps of \<open>TransformTraces\<close>, keyed by trace id. They are association
  lists in first-seen order; Go ranges over a map in an unspecified order, so the order of
  the emitted list is one of the orders the program can produce.
\<close>

record tstate =
  traces :: "(string \<times> Trace) list"
  allSpans :: "(string \<times> Span list) list"

definition spans_of :: "(string \<times> Span list) list \<Rightarrow> string \<Rightarrow> Span list" where
  "spans_of m traceID = (case map_of m traceID of None \<Rightarrow> [] | Some l \<Rightarrow> l)"

text \<open>The update of an existing aggregate: the \<open>else\<close> branch of the innermost loop.\<close>

definition update_trace :: "Span \<Rightarrow> Trace \<Rightarrow> Trace" where
  "update_trace convertedSpan trace0 =
     (let trace1 = trace0\<lparr>Trace_SpanCount := Trace_SpanCount trace0 + 1\<rparr>;
          trace2 = (if Before (Span_StartTime convertedSpan) (Trace_StartTime trace1)
                    then trace1\<lparr>Trace_StartTime := Span_StartTime convertedSpan\<rparr>
                    else trace1);
          trace3 = (if After (Span_EndTime convertedSpan) (Trace_EndTime trace2)
                    then trace2\<lparr>Trace_EndTime := Span_EndTime convertedSpan,
                               Trace_DurationMs :=
                                 Milliseconds (Sub (Span_EndTime convertedSpan) (Trace_StartTime trace2))\<rparr>
                    else trace2)
      in if Span_StatusCode convertedSpan = StatusCodeError
         then trace3\<lparr>Trace_ErrorCount := Trace_ErrorCount trace3 + 1\<rparr>
         else trace3)"

text \<open>The body of the innermost loop, for one span of a resource.\<close>

definition add_span :: "gomap \<Rightarrow> string \<Rightarrow> tstate \<Rightarrow> Span_otlp \<Rightarrow> tstate" where
  "add_span resourceAttrs serviceName st sp =
     (let traceID = ID_String (span_TraceID sp);
          convertedSpan = convertSpan serviceName sp;
          spans' = AList.update traceID (spans_of (allSpans st) traceID @ [convertedSpan]) (allSpans st)
      in case map_of (traces st) traceID of
           None \<Rightarrow>
             \<lparr>traces = AList.update traceID
                 \<lparr>Trace_TraceID = traceID,
                  Trace_ServiceName = serviceName,
                  Trace_OperationName = span_Name sp,
                  Trace_StartTime = Span_StartTime convertedSpan,
                  Trace_EndTime = Span_EndTime convertedSpan,
                  Trace_DurationMs = Span_DurationMs convertedSpan,
                  Trace_SpanCount = 1,
                  Trace_ErrorCount = 0,
                  Trace_StatusCode = Span_StatusCode convertedSpan,
                  Trace_Attributes = mergeAttributes resourceAttrs (Span_Attributes convertedSpan),
                  Trace_Spans = []\<rparr> (traces st),
              allSpans = spans'\<rparr>
         | Some trace0 \<Rightarrow>
             \<lparr>traces = AList.update traceID (update_trace convertedSpan trace0) (traces st),
              allSpans = spans'\<rparr>)"

definition add_scope :: "gomap \<Rightarrow> string \<Rightarrow> tstate \<Rightarrow> ScopeSpans \<Rightarrow> tstate" where
  "add_scope resourceAttrs serviceName st ss = foldl (add_span resourceAttrs serviceName) st (Spans_of ss)"

definition add_resource :: "tstate \<Rightarrow> ResourceSpans \<Rightarrow> tstate" where
  "add_resource st rs =
     (let resourceAttrs = attributesToMap (rs_Resource_Attributes rs);
          serviceName = extractServiceName resourceAttrs
      in foldl (add_scope resourceAttrs serviceName) st (rs_ScopeSpans rs))"

text \<open>\<open>TransformTraces\<close>; its error result is always \<open>nil\<close>.\<close>

definition TransformTraces :: "ptrace_Traces \<Rightarrow> Trace list" where
  "TransformTraces td =
     (let st = foldl add_resource \<lparr>traces = [], allSpans = []\<rparr> td
      in map (\<lambda>(traceID, trace0). trace0\<lparr>Trace_Spans := spans_of (allSpans st) traceID\<rparr>) (traces st))"

section \<open>The metric transformer\<close>

text \<open>
  The OTLP metric input: a metric is a name and a typed union of datapoint lists. A number
  datapoint and an exemplar carry an \<open>int64\<close>, a \<open>float64\<close> or no value; counts are
  \<open>uint64\<close>, the scale of an exponential histogram is an \<open>int32\<close>.
\<close>

datatype NumberValue = ValueTypeNone | NumberInt int | NumberDouble real

record Exemplar_otlp =
  ex_Value :: NumberValue
  ex_Timestamp :: "64 word"
  ex_TraceID :: "8 word list"
  ex_SpanID :: "8 word list"
  ex_FilteredAttributes :: pcommon_Map

record NumberDataPoint =
  ndp_Attributes :: pcommon_Map
  ndp_Timestamp :: "64 word"
  ndp_Value :: NumberValue
  ndp_Exemplars :: "Exemplar_otlp list"

record HistogramDataPoint =
  hdp_Attributes :: pcommon_Map
  hdp_Timestamp :: "64 word"
  hdp_Count :: nat
  hdp_Sum :: real
  hdp_BucketCounts :: "nat list"
  hdp_ExplicitBounds :: "real list"
  hdp_Exemplars :: "Exemplar_otlp list"

record ExponentialHistogramDataPoint =
  edp_Attributes :: pcommon_Map
  edp_Timestamp :: "64 word"
  edp_Count :: nat
  edp_Sum :: real
  edp_Scale :: int
  edp_Exemplars :: "Exemplar_otlp list"

record SummaryDataPoint =
  sdp_Attributes :: pcommon_Map
  sdp_Timestamp :: "64 word"
  sdp_Count :: nat
  sdp_Sum :: real
  sdp_QuantileValues :: "(real \<times> real) list"

datatype MetricData =
    MetricTypeEmpty
  | MetricTypeGauge "NumberDataPoint list"
  | MetricTypeSum "NumberDataPoint list"
  | MetricTypeHistogram "HistogramDataPoint list"
  | MetricTypeExponentialHistogram "ExponentialHistogramDataPoint list"
  | MetricTypeSummary "SummaryDataPoint list"

record Metric =
  metric_Name :: string
  metric_Data :: MetricData

record ScopeMetrics =
  Metrics_of :: "Metric list"

record ResourceMetrics =
  rm_Resource_Attributes :: pcommon_Map
  rm_ScopeMetrics :: "ScopeMetrics list"

type_synonym pmetric_Metrics = "ResourceMetrics list"

text \<open>The stored model, \<open>store.MetricRecord\<close> and \<open>store.Exemplar\<close>.\<close>

record Exemplar =
  Exemplar_Value :: real
  Exemplar_Timestamp :: Time
  Exemplar_TraceID :: string
  Exemplar_SpanID :: string
  Exemplar_Attributes :: gomap

record MetricRecord =
  MetricRecord_ID :: int
  MetricRecord_Timestamp :: Time
  MetricRecord_MetricName :: string
  MetricRecord_MetricType :: string
  MetricRecord_ServiceName :: string
  MetricRecord_Value :: "real option"
  MetricRecord_Attributes :: gomap
  MetricRecord_Exemplars :: "Exemplar list"

text \<open>
  A run-time panic of the Go program. \<open>m[k] = v\<close> on a \<open>nil\<close> map panics with
  "assignment to entry in nil map"; on any other map it stores the pair.
\<close>

datatype go_panic = AssignmentToEntryInNilMap

definition map_assign :: "gomap \<Rightarrow> string \<Rightarrow> iface \<Rightarrow> go_panic + gomap" where
  "map_assign m k v =
     (case m of
        None \<Rightarrow> Inl AssignmentToEntryInNilMap
      | Some kvs \<Rightarrow> Inr (Some (AList.update k v kvs)))"

text \<open>A loop that appends one record per datapoint; a panic in the body ends it.\<close>

fun each_point :: "('a \<Rightarrow> go_panic + 'b) \<Rightarrow> 'a list \<Rightarrow> go_panic + 'b list" where
  "each_point f [] = Inr []"
| "each_point f (dp # dps) =
     (case f dp of
        Inl p \<Rightarrow> Inl p
      | Inr record \<Rightarrow>
          (case each_point f dps of Inl p \<Rightarrow> Inl p | Inr records \<Rightarrow> Inr (record # records)))"

definition extractNumericValue :: "NumberDataPoint \<Rightarrow> real" where
  "extractNumericValue dp =
     (case ndp_Value dp of
        NumberInt i \<Rightarrow> real_of_int i
      | NumberDouble d \<Rightarrow> d
      | ValueTypeNone \<Rightarrow> 0)"

definition convertExemplars :: "Exemplar_otlp list \<Rightarrow> Exemplar list" where
  "convertExemplars exemplars =
     map (\<lambda>ex. \<lparr>Exemplar_Value =
                   (case ex_Value ex of
                      NumberInt i \<Rightarrow> real_of_int i
                    | NumberDouble d \<Rightarrow> d
                    | ValueTypeNone \<Rightarrow> 0),
                Exemplar_Timestamp = time_Unix0 (ex_Timestamp ex),
                Exemplar_TraceID = ID_String (ex_TraceID ex),
                Exemplar_SpanID = ID_String (ex_SpanID ex),
                Exemplar_Attributes = attributesToMap (ex_FilteredAttributes ex)\<rparr>) exemplars"

definition gauge_record :: "string \<Rightarrow> string \<Rightarrow> gomap \<Rightarrow> string \<Rightarrow> NumberDataPoint \<Rightarrow> MetricRecord" where
  "gauge_record metricName serviceName resourceAttrs metricType dp =
     \<lparr>MetricRecord_ID = 0,
      MetricRecord_Timestamp = time_Unix0 (ndp_Timestamp dp),
      MetricRecord_MetricName = metricName,
      MetricRecord_MetricType = metricType,
      MetricRecord_ServiceName = serviceName,
      MetricRecord_Value = Some (extractNumericValue dp),
      MetricRecord_Attributes = mergeAttributes resourceAttrs (attributesToMap (ndp_Attributes dp)),
      MetricRecord_Exemplars = convertExemplars (ndp_Exemplars dp)\<rparr>"

definition transformGauge :: "NumberDataPoint list \<Rightarrow> string \<Rightarrow> string \<Rightarrow> gomap \<Rightarrow> go_panic + MetricRecord list" where
  "transformGauge dps metricName serviceName resourceAttrs =
     each_point (\<lambda>dp. Inr (gauge_record metricName serviceName resourceAttrs ''gauge'' dp)) dps"

definition transformSum :: "NumberDataPoint list \<Rightarrow> string \<Rightarrow> string \<Rightarrow> gomap \<Rightarrow> go_panic + MetricRecord list" where
  "transformSum dps metricName serviceName resourceAttrs =
     each_point (\<lambda>dp. Inr (gauge_record metricName serviceName resourceAttrs ''sum'' dp)) dps"

text \<open>
  The bucket list of a histogram datapoint: one map per bucket count, with the upper bound
  where the explicit bounds reach.
\<close>

definition histogram_buckets :: "HistogramDataPoint \<Rightarrow> iface" where
  "histogram_buckets dp =
     ISlice (map (\<lambda>j. IMap (Some
                    (if j < length (hdp_ExplicitBounds dp)
                     then AList.update ''upper_bound'' (IDouble (hdp_ExplicitBounds dp ! j))
                            [(''count'', IUint (hdp_BucketCounts dp ! j))]
                     else [(''count'', IUint (hdp_BucketCounts dp ! j))])))
            [0 ..< length (hdp_BucketCounts dp)])"

definition histogram_record :: "string \<Rightarrow> string \<Rightarrow> gomap \<Rightarrow> HistogramDataPoint \<Rightarrow> go_panic + MetricRecord" where
  "histogram_record metricName serviceName resourceAttrs dp =
     (case map_assign (attributesToMap (hdp_Attributes dp)) ''count'' (IUint (hdp_Count dp)) of
        Inl p \<Rightarrow> Inl p
      | Inr attrs1 \<Rightarrow>
     (case map_assign attrs1 ''sum'' (IDouble (hdp_Sum dp)) of
        Inl p \<Rightarrow> Inl p
      | Inr attrs2 \<Rightarrow>
     (case map_assign attrs2 ''buckets'' (histogram_buckets dp) of
        Inl p \<Rightarrow> Inl p
      | Inr attrs \<Rightarrow>
          Inr \<lparr>MetricRecord_ID = 0,
               MetricRecord_Timestamp = time_Unix0 (hdp_Timestamp dp),
               MetricRecord_MetricName = metricName,
               MetricRecord_MetricType = ''histogram'',
               MetricRecord_ServiceName = serviceName,
               MetricRecord_Value = Some (hdp_Sum dp),
               MetricRecord_Attributes = mergeAttributes resourceAttrs attrs,
               MetricRecord_Exemplars = convertExemplars (hdp_Exemplars dp)\<rparr>)))"

definition transformHistogram :: "HistogramDataPoint list \<Rightarrow> string \<Rightarrow> string \<Rightarrow> gomap \<Rightarrow> go_panic + MetricRecord list" where
  "transformHistogram dps metricName serviceName resourceAttrs =
     each_point (histogram_record metricName serviceName resourceAttrs) dps"

definition exponential_record :: "string \<Rightarrow> string \<Rightarrow> gomap \<Rightarrow> ExponentialHistogramDataPoint \<Rightarrow> go_panic + MetricRecord" where
  "exponential_record metricName serviceName resourceAttrs dp =
     (case map_assign (attributesToMap (edp_Attributes dp)) ''count'' (IUint (edp_Count dp)) of
        Inl p \<Rightarrow> Inl p
      | Inr attrs1 \<Rightarrow>
     (case map_assign attrs1 ''sum'' (IDouble (edp_Sum dp)) of
        Inl p \<Rightarrow> Inl p
      | Inr attrs2 \<Rightarrow>
     (case map_assign attrs2 ''scale'' (IInt (edp_Scale dp)) of
        Inl p \<Rightarrow> Inl p
      | Inr attrs \<Rightarrow>
          Inr \<lparr>MetricRecord_ID = 0,
               MetricRecord_Timestamp = time_Unix0 (edp_Timestamp dp),
               MetricRecord_MetricName = metricName,
               MetricRecord_MetricType = ''exponential_histogram'',
               MetricRecord_ServiceName = serviceName,
               MetricRecord_Value = Some (edp_Sum dp),
               MetricRecord_Attributes = mergeAttributes resourceAttrs attrs,
               MetricRecord_Exemplars = convertExemplars (edp_Exemplars dp)\<rparr>)))"

definition transformExponentialHistogram :: "ExponentialHistogramDataPoint list \<Rightarrow> string \<Rightarrow> string \<Rightarrow> gomap \<Rightarrow> go_panic + MetricRecord list" where
  "transformExponentialHistogram dps metricName serviceName resourceAttrs =
     each_point (exponential_record metricName serviceName resourceAttrs) dps"

definition summary_quantiles :: "SummaryDataPoint \<Rightarrow> iface" where
  "summary_quantiles dp =
     ISlice (map (\<lambda>(q, v). IMap (Some (AList.update ''value'' (IDouble v) [(''quantile'', IDouble q)])))
            (sdp_QuantileValues dp))"

definition summary_record :: "string \<Rightarrow> string \<Rightarrow> gomap \<Rightarrow> SummaryDataPoint \<Rightarrow> go_panic + MetricRecord" where
  "summary_record metricName serviceName resourceAttrs dp =
     (case map_assign (attributesToMap (sdp_Attributes dp)) ''count'' (IUint (sdp_Count dp)) of
        Inl p \<Rightarrow> Inl p
      | Inr attrs1 \<Rightarrow>
     (case map_assign attrs1 ''sum'' (IDouble (sdp_Sum dp)) of
        Inl p \<Rightarrow> Inl p
      | Inr attrs2 \<Rightarrow>
     (case map_assign attrs2 ''quantiles'' (summary_quantiles dp) of
        Inl p \<Rightarrow> Inl p
      | Inr attrs \<Rightarrow>
          Inr \<lparr>MetricRecord_ID = 0,
               MetricRecord_Timestamp = time_Unix0 (sdp_Timestamp dp),
               MetricRecord_MetricName = metricName,
               MetricRecord_MetricType = ''summary'',
               MetricRecord_ServiceName = serviceName,
               MetricRecord_Value = Some (sdp_Sum dp),
               MetricRecord_Attributes = mergeAttributes resourceAttrs attrs,
               MetricRecord_Exemplars = []\<rparr>)))"

definition transformSummary :: "SummaryDataPoint list \<Rightarrow> string \<Rightarrow> string \<Rightarrow> gomap \<Rightarrow> go_panic + MetricRecord list" where
  "transformSummary dps metricName serviceName resourceAttrs =
     each_point (summary_record metricName serviceName resourceAttrs) dps"

text \<open>The \<open>switch\<close> on the metric type, for one metric.\<close>

definition transform_metric :: "string \<Rightarrow> gomap \<Rightarrow> Metric \<Rightarrow> go_panic + MetricRecord list" where
  "transform_metric serviceName resourceAttrs metric =
     (case metric_Data metric of
        MetricTypeGauge dps \<Rightarrow> transformGauge dps (metric_Name metric) serviceName resourceAttrs
      | MetricTypeSum dps \<Rightarrow> transformSum dps (metric_Name metric) serviceName resourceAttrs
      | MetricTypeHistogram dps \<Rightarrow> transformHistogram dps (metric_Name metric) serviceName resourceAttrs
      | MetricTypeExponentialHistogram dps \<Rightarrow>
          transformExponentialHistogram dps (metric_Name metric) serviceName resourceAttrs
      | MetricTypeSummary dps \<Rightarrow> transformSummary dps (metric_Name metric) serviceName resourceAttrs
      | MetricTypeEmpty \<Rightarrow> Inr [])"

text \<open>The nested loops: the records of each part are appended in order.\<close>

fun append_all :: "('a \<Rightarrow> go_panic + 'b list) \<Rightarrow> 'a list \<Rightarrow> go_panic + 'b list" where
  "append_all f [] = Inr []"
| "append_all f (x # xs) =
     (case f x of
        Inl p \<Rightarrow> Inl p
      | Inr records \<Rightarrow>
          (case append_all f xs of Inl p \<Rightarrow> Inl p | Inr rest \<Rightarrow> Inr (records @ rest)))"

definition transform_resource :: "ResourceMetrics \<Rightarrow> go_panic + MetricRecord list" where
  "transform_resource rm =
     (let resourceAttrs = attributesToMap (rm_Resource_Attributes rm);
          serviceName = extractServiceName resourceAttrs
      in append_all (\<lambda>sm. append_all (transform_metric serviceName resourceAttrs) (Metrics_of sm))
           (rm_ScopeMetrics rm))"

definition TransformMetrics :: "pmetric_Metrics \<Rightarrow> go_panic + MetricRecord list" where
  "TransformMetrics md = append_all transform_resource md"

section \<open>The store\<close>

text \<open>
  The tables of the embedded database, as the migration creates them. A row of \<open>logs\<close> is a
  \<open>LogRecord\<close> with its \<open>id\<close>, a row of \<open>spans\<close> a \<open>Span\<close>, a row of \<open>metrics\<close> a
  \<open>MetricRecord\<close>, a row of \<open>traces\<close> a \<open>Trace\<close> whose \<open>Spans\<close> are empty (the table has no
  such column). A JSON column holds the document that was marshalled into it. The column
  \<open>created_at\<close>, which no statement of the program reads or sets, is left out, and so
  is the rounding of a timestamp to the precision of the column.
\<close>

record LogRecord =
  LogRecord_ID :: int
  LogRecord_Timestamp :: Time
  LogRecord_TraceID :: "string option"
  LogRecord_SpanID :: "string option"
  LogRecord_SeverityText :: string
  LogRecord_SeverityNumber :: int
  LogRecord_Body :: string
  LogRecord_ServiceName :: string
  LogRecord_Attributes :: gomap
  LogRecord_ResourceAttributes :: gomap

record db =
  traces_table :: "Trace list"
  spans_table :: "Span list"
  logs_table :: "LogRecord list"
  metrics_table :: "MetricRecord list"
  logs_id_seq :: int

text \<open>
  What the program asks of the driver. Whether a call returns an error (a lost connection,
  a value the engine refuses) is not decided by the program: it is the parameter
  \<open>driver\<close>, true on the calls that fail.
\<close>

datatype db_call =
    BeginTx
  | Commit
  | InsertLogRow LogRecord
  | UpsertTraceRow Trace
  | InsertSpanRow Span
  | SelectLogs
  | CountLogRows
  | SelectTrace string
  | SelectSpans string
  | SelectAggregate

type_synonym driver = "db_call \<Rightarrow> bool"

datatype error = Error string

subsection \<open>Logs\<close>

text \<open>
  \<open>InsertLog\<close>: one statement, committed on its own. The new row takes the next value of
  the sequence as its \<open>id\<close> (which the source also stores into \<open>log.ID\<close>).
\<close>

definition InsertLog :: "driver \<Rightarrow> db \<Rightarrow> LogRecord \<Rightarrow> error option \<times> db" where
  "InsertLog drv d lr =
     (if drv (InsertLogRow lr) then (Some (Error ''failed to insert log''), d)
      else (None, d\<lparr>logs_table := logs_table d @ [lr\<lparr>LogRecord_ID := logs_id_seq d\<rparr>],
                    logs_id_seq := logs_id_seq d + 1\<rparr>))"

text \<open>
  The loop of \<open>InsertLogs\<close> inside its transaction: \<open>tx\<close> is the state the transaction
  sees. The first failing statement ends the loop.
\<close>

fun exec_logs :: "driver \<Rightarrow> db \<Rightarrow> LogRecord list \<Rightarrow> error option \<times> db" where
  "exec_logs drv tx [] = (None, tx)"
| "exec_logs drv tx (lr # lrs) =
     (if drv (InsertLogRow lr) then (Some (Error ''failed to insert log''), tx)
      else exec_logs drv
             (tx\<lparr>logs_table := logs_table tx @ [lr\<lparr>LogRecord_ID := logs_id_seq tx\<rparr>],
                 logs_id_seq := logs_id_seq tx + 1\<rparr>) lrs)"

text \<open>
  \<open>InsertLogs\<close>: every return before a successful \<open>Commit\<close> runs the deferred
  \<open>Rollback\<close>, which takes the tables back to what they were. A sequence is not
  transactional: it keeps the values the statements of the transaction drew.
\<close>

definition InsertLogs :: "driver \<Rightarrow> db \<Rightarrow> LogRecord list \<Rightarrow> error option \<times> db" where
  "InsertLogs drv d lrs =
     (if length lrs = 0 then (None, d)
      else if drv BeginTx then (Some (Error ''failed to begin transaction''), d)
      else (case exec_logs drv d lrs of
              (Some e, tx) \<Rightarrow> (Some e, d\<lparr>logs_id_seq := logs_id_seq tx\<rparr>)
            | (None, tx) \<Rightarrow>
                if drv Commit
                then (Some (Error ''failed to commit transaction''), d\<lparr>logs_id_seq := logs_id_seq tx\<rparr>)
                else (None, tx)))"

text \<open>
  \<open>processLogs\<close> of the receiver, on the records \<open>TransformLogs\<close> returned for the request
  (one per OTLP log record, in order; its error is always \<open>nil\<close>): one \<open>InsertLog\<close> per
  record, returning at the first error.
\<close>

fun processLogs :: "driver \<Rightarrow> db \<Rightarrow> LogRecord list \<Rightarrow> error option \<times> db" where
  "processLogs drv d [] = (None, d)"
| "processLogs drv d (lr # lrs) =
     (case InsertLog drv d lr of
        (Some e, d') \<Rightarrow> (Some e, d')
      | (None, d') \<Rightarrow> processLogs drv d' lrs)"

text \<open>
  \<open>LogFilters\<close>. The zero \<open>time.Time\<close> is January 1 of year 1, 00:00 UTC: 62135596800
  seconds before the Unix epoch.
\<close>

record LogFilters =
  LogFilters_StartTime :: Time
  LogFilters_EndTime :: Time
  LogFilters_ServiceName :: string
  LogFilters_TraceID :: string
  LogFilters_MinSeverity :: int
  LogFilters_SearchText :: string
  LogFilters_Limit :: int
  LogFilters_Offset :: int

definition zero_Time :: Time where
  "zero_Time = - 62135596800 * 1000000000"

definition IsZero :: "Time \<Rightarrow> bool" where
  "IsZero t = (t = zero_Time)"

text \<open>
  SQL \<open>LIKE\<close>, pattern first: \<open>%\<close> matches any run of characters, \<open>_\<close> any one
  character, every other character itself.
\<close>

fun like :: "string \<Rightarrow> string \<Rightarrow> bool" where
  "like [] s = (s = [])"
| "like (p # ps) [] = (p = CHR ''%'' \<and> like ps [])"
| "like (p # ps) (c # cs) =
     (if p = CHR ''%'' then like ps (c # cs) \<or> like (p # ps) cs
      else (p = CHR ''_'' \<or> p = c) \<and> like ps cs)"

text \<open>
  The \<open>WHERE\<close> clause \<open>GetLogs\<close> builds, read on one row. A row whose \<open>trace_id\<close> is
  \<open>NULL\<close> does not satisfy \<open>trace_id = ?\<close>.
\<close>

definition GetLogs_where :: "LogFilters \<Rightarrow> LogRecord \<Rightarrow> bool" where
  "GetLogs_where filters row =
     ((IsZero (LogFilters_StartTime filters) \<or> LogRecord_Timestamp row \<ge> LogFilters_StartTime filters) \<and>
      (IsZero (LogFilters_EndTime filters) \<or> LogRecord_Timestamp row \<le> LogFilters_EndTime filters) \<and>
      (LogFilters_ServiceName filters = [] \<or> LogRecord_ServiceName row = LogFilters_ServiceName filters) \<and>
      (LogFilters_TraceID filters = [] \<or> LogRecord_TraceID row = Some (LogFilters_TraceID filters)) \<and>
      (LogFilters_MinSeverity filters \<le> 0 \<or> LogRecord_SeverityNumber row \<ge> LogFilters_MinSeverity filters) \<and>
      (LogFilters_SearchText filters = [] \<or>
         like (''%'' @ LogFilters_SearchText filters @ ''%'') (LogRecord_Body row)))"

text \<open>The \<open>WHERE\<close> clause \<open>CountLogs\<close> builds.\<close>

definition CountLogs_where :: "LogFilters \<Rightarrow> LogRecord \<Rightarrow> bool" where
  "CountLogs_where filters row =
     ((IsZero (LogFilters_StartTime filters) \<or> LogRecord_Timestamp row \<ge> LogFilters_StartTime filters) \<and>
      (IsZero (LogFilters_EndTime filters) \<or> LogRecord_Timestamp row \<le> LogFilters_EndTime filters) \<and>
      (LogFilters_ServiceName filters = [] \<or> LogRecord_ServiceName row = LogFilters_ServiceName filters) \<and>
      (LogFilters_MinSeverity filters \<le> 0 \<or> LogRecord_SeverityNumber row \<ge> LogFilters_MinSeverity filters) \<and>
      (LogFilters_SearchText filters = [] \<or>
         like (''%'' @ LogFilters_SearchText filters @ ''%'') (LogRecord_Body row)))"

text \<open>
  \<open>ORDER BY timestamp DESC\<close>: rows with equal timestamps keep their table order (SQL
  leaves their order open).
\<close>

definition order_by_timestamp_desc :: "LogRecord list \<Rightarrow> LogRecord list" where
  "order_by_timestamp_desc rows = sort_key (\<lambda>row. - LogRecord_Timestamp row) rows"

text \<open>
  \<open>GetLogs\<close> with its pagination removed: the rows the query selects, in its order.
\<close>

definition GetLogs_unpaged :: "db \<Rightarrow> LogFilters \<Rightarrow> LogRecord list" where
  "GetLogs_unpaged d filters = order_by_timestamp_desc (filter (GetLogs_where filters) (logs_table d))"

text \<open>\<open>GetLogs\<close>; the engine refuses a negative \<open>LIMIT\<close> or \<open>OFFSET\<close>.\<close>

definition GetLogs :: "driver \<Rightarrow> db \<Rightarrow> LogFilters \<Rightarrow> error + LogRecord list" where
  "GetLogs drv d filters =
     (if drv SelectLogs \<or> LogFilters_Limit filters < 0 \<or> LogFilters_Offset filters < 0
      then Inl (Error ''failed to query logs'')
      else Inr (take (nat (LogFilters_Limit filters))
                 (drop (nat (LogFilters_Offset filters)) (GetLogs_unpaged d filters))))"

definition CountLogs :: "driver \<Rightarrow> db \<Rightarrow> LogFilters \<Rightarrow> error + int" where
  "CountLogs drv d filters =
     (if drv CountLogRows then Inl (Error ''failed to count logs'')
      else Inr (int (length (filter (CountLogs_where filters) (logs_table d)))))"

subsection \<open>Traces and spans\<close>

text \<open>
  The statement of \<open>insertSpan\<close>, \<open>INSERT INTO spans ... ON CONFLICT (span_id) DO NOTHING\<close>,
  on the state \<open>tx\<close> its transaction sees: a row with the same \<open>span_id\<close> makes the
  statement do nothing.
\<close>

definition insertSpan :: "driver \<Rightarrow> db \<Rightarrow> Span \<Rightarrow> error option \<times> db" where
  "insertSpan drv tx sp =
     (if drv (InsertSpanRow sp) then (Some (Error ''failed to insert span''), tx)
      else if Span_SpanID sp \<in> set (map Span_SpanID (spans_table tx)) then (None, tx)
      else (None, tx\<lparr>spans_table := spans_table tx @ [sp]\<rparr>))"

text \<open>
  \<open>INSERT INTO traces ... ON CONFLICT (trace_id) DO UPDATE SET end_time = EXCLUDED.end_time,
  duration_ms = EXCLUDED.duration_ms, span_count = EXCLUDED.span_count,
  error_count = EXCLUDED.error_count\<close>, on the rows of \<open>traces\<close>.
\<close>

fun upsert_trace :: "Trace \<Rightarrow> Trace list \<Rightarrow> Trace list" where
  "upsert_trace trace0 [] = [trace0\<lparr>Trace_Spans := []\<rparr>]"
| "upsert_trace trace0 (row # rows) =
     (if Trace_TraceID row = Trace_TraceID trace0
      then row\<lparr>Trace_EndTime := Trace_EndTime trace0,
               Trace_DurationMs := Trace_DurationMs trace0,
               Trace_SpanCount := Trace_SpanCount trace0,
               Trace_ErrorCount := Trace_ErrorCount trace0\<rparr> # rows
      else row # upsert_trace trace0 rows)"

fun insert_spans :: "driver \<Rightarrow> db \<Rightarrow> Span list \<Rightarrow> error option \<times> db" where
  "insert_spans drv tx [] = (None, tx)"
| "insert_spans drv tx (sp # sps) =
     (case insertSpan drv tx sp of
        (Some e, tx') \<Rightarrow> (Some (Error ''failed to insert span''), tx')
      | (None, tx') \<Rightarrow> insert_spans drv tx' sps)"

text \<open>
  \<open>InsertTrace\<close>: the upsert of the trace row and the inserts of its spans in one
  transaction; a return before a successful \<open>Commit\<close> rolls it back.
\<close>

definition InsertTrace :: "driver \<Rightarrow> db \<Rightarrow> Trace \<Rightarrow> error option \<times> db" where
  "InsertTrace drv d trace0 =
     (if drv BeginTx then (Some (Error ''failed to begin transaction''), d)
      else if drv (UpsertTraceRow trace0) then (Some (Error ''failed to insert trace''), d)
      else (case insert_spans drv (d\<lparr>traces_table := upsert_trace trace0 (traces_table d)\<rparr>)
                   (Trace_Spans trace0) of
              (Some e, tx) \<Rightarrow> (Some e, d)
            | (None, tx) \<Rightarrow>
                if drv Commit then (Some (Error ''failed to commit transaction''), d)
                else (None, tx)))"

text \<open>
  \<open>getSpansByTraceID\<close> and \<open>GetTraceByID\<close>. \<open>ORDER BY start_time ASC\<close> keeps rows with
  equal start times in table order.
\<close>

definition getSpansByTraceID :: "driver \<Rightarrow> db \<Rightarrow> string \<Rightarrow> error + Span list" where
  "getSpansByTraceID drv d traceID =
     (if drv (SelectSpans traceID) then Inl (Error ''failed to query spans'')
      else Inr (sort_key Span_StartTime (filter (\<lambda>row. Span_TraceID row = traceID) (spans_table d))))"

definition GetTraceByID :: "driver \<Rightarrow> db \<Rightarrow> string \<Rightarrow> error + Trace" where
  "GetTraceByID drv d traceID =
     (if drv (SelectTrace traceID) then Inl (Error ''failed to query trace'')
      else (case find (\<lambda>row. Trace_TraceID row = traceID) (traces_table d) of
              None \<Rightarrow> Inl (Error ''trace not found'')
            | Some row \<Rightarrow>
                (case getSpansByTraceID drv d traceID of
                   Inl e \<Rightarrow> Inl e
                 | Inr spans \<Rightarrow> Inr (row\<lparr>Trace_Spans := spans\<rparr>))))"

subsection \<open>The compare endpoint\<close>

text \<open>
  The body of a \<open>POST /api/traces/compare\<close> request as \<open>ShouldBindJSON\<close> sees it: not
  JSON of the request's shape, or an object whose \<open>trace_ids\<close> is absent or \<open>null\<close>
  (\<open>None\<close>) or a list of strings. The binding tag is \<open>required,min=2,max=4\<close>:
  \<open>required\<close> refuses the \<open>nil\<close> slice, \<open>min\<close> and \<open>max\<close> bound its length.
\<close>

datatype request_body = Malformed | Object "string list option"

definition ShouldBindJSON :: "request_body \<Rightarrow> error + string list" where
  "ShouldBindJSON body =
     (case body of
        Malformed \<Rightarrow> Inl (Error ''invalid JSON'')
      | Object None \<Rightarrow> Inl (Error ''required'')
      | Object (Some ids) \<Rightarrow>
          if length ids < 2 then Inl (Error ''min'')
          else if length ids > 4 then Inl (Error ''max'')
          else Inr ids)"

record comparison =
  comparison_count :: int
  duration_ms_min :: int
  duration_ms_max :: int
  duration_ms_avg :: int
  span_count_min :: int
  span_count_max :: int
  span_count_avg :: real
  total_errors :: int

text \<open>
  \<open>compareTracesStats\<close>: \<open>nil\<close> for no traces. The average duration is an integer
  division, truncating; the average span count a \<open>float64\<close> division.
\<close>

definition compareTracesStats :: "Trace list \<Rightarrow> comparison option" where
  "compareTracesStats ts =
     (case ts of
        [] \<Rightarrow> None
      | first # _ \<Rightarrow>
          Some \<lparr>comparison_count = int (length ts),
                duration_ms_min = fold (\<lambda>t m. if Trace_DurationMs t < m then Trace_DurationMs t else m) ts
                                    (Trace_DurationMs first),
                duration_ms_max = fold (\<lambda>t m. if Trace_DurationMs t > m then Trace_DurationMs t else m) ts
                                    (Trace_DurationMs first),
                duration_ms_avg = fold (\<lambda>t total. total + Trace_DurationMs t) ts 0 sdiv int (length ts),
                span_count_min = fold (\<lambda>t m. if Trace_SpanCount t < m then Trace_SpanCount t else m) ts
                                   (Trace_SpanCount first),
                span_count_max = fold (\<lambda>t m. if Trace_SpanCount t > m then Trace_SpanCount t else m) ts
                                   (Trace_SpanCount first),
                span_count_avg = real_of_int (fold (\<lambda>t total. total + Trace_SpanCount t) ts 0)
                                   / real (length ts),
                total_errors = fold (\<lambda>t total. total + Trace_ErrorCount t) ts 0\<rparr>)"

datatype response =
    StatusBadRequest string
  | StatusNotFound string
  | StatusOK "Trace list" "comparison option"

text \<open>
  The fetch loop of \<open>CompareTraces\<close>. Beside its result it returns the trace ids it asked
  the store for, in order: the storage accesses of the request.
\<close>

fun fetch_traces :: "driver \<Rightarrow> db \<Rightarrow> string list \<Rightarrow> (string + Trace list) \<times> string list" where
  "fetch_traces drv d [] = (Inr [], [])"
| "fetch_traces drv d (traceID # traceIDs) =
     (case GetTraceByID drv d traceID of
        Inl e \<Rightarrow> (Inl traceID, [traceID])
      | Inr trace0 \<Rightarrow>
          (case fetch_traces drv d traceIDs of
             (Inl missing, asked) \<Rightarrow> (Inl missing, traceID # asked)
           | (Inr found, asked) \<Rightarrow> (Inr (trace0 # found), traceID # asked)))"

definition CompareTraces :: "driver \<Rightarrow> db \<Rightarrow> request_body \<Rightarrow> response \<times> string list" where
  "CompareTraces drv d body =
     (case ShouldBindJSON body of
        Inl e \<Rightarrow> (StatusBadRequest ''Invalid request body. Must provide 2-4 trace_ids'', [])
      | Inr ids \<Rightarrow>
          if length ids < 2 \<or> length ids > 4
          then (StatusBadRequest ''Must provide between 2 and 4 trace_ids'', [])
          else (case fetch_traces drv d ids of
                  (Inl missing, asked) \<Rightarrow> (StatusNotFound missing, asked)
                | (Inr found, asked) \<Rightarrow> (StatusOK found (compareTracesStats found), asked)))"

subsection \<open>Metric aggregation\<close>

record AggregationRequest =
  req_MetricName :: string
  req_ServiceName :: string
  req_StartTime :: Time
  req_EndTime :: Time
  req_Aggregation :: string
  req_BucketSize :: string

record AggregationResult =
  res_TimeBucket :: Time
  res_MetricName :: string
  res_AggregationType :: string
  res_Value :: real
  res_Unit :: string

definition parseBucketSizeToSeconds :: "string \<Rightarrow> int" where
  "parseBucketSizeToSeconds bucketSize =
     (if bucketSize = ''1 minute'' then 60
      else if bucketSize = ''5 minutes'' then 300
      else if bucketSize = ''15 minutes'' then 900
      else if bucketSize = ''30 minutes'' then 1800
      else if bucketSize = ''1 hour'' then 3600
      else if bucketSize = ''6 hours'' then 21600
      else 60)"

definition aggFunc :: "string \<Rightarrow> string" where
  "aggFunc aggregation =
     (if aggregation = ''sum'' then ''SUM''
      else if aggregation = ''min'' then ''MIN''
      else if aggregation = ''max'' then ''MAX''
      else if aggregation = ''count'' then ''COUNT''
      else if aggregation = ''avg'' then ''AVG''
      else ''AVG'')"

text \<open>
  The SQL of the query, operator by operator, as the embedded engine (DuckDB, opened with
  its default settings) evaluates it. A \<open>DOUBLE\<close> is carried as a \<open>real\<close>.
  \<^item> \<open>EXTRACT(epoch FROM timestamp)\<close> is the row's time in seconds, a \<open>DOUBLE\<close>.
  \<^item> \<open>CAST(x AS BIGINT)\<close> rounds a \<open>DOUBLE\<close> to the nearest integer, a tie to the even one.
  \<^item> \<open>a / b\<close> is floating-point division, on integers too: the engine's integer
    division is the operator \<open>//\<close>, which the query does not use.
  \<^item> \<open>to_timestamp(x)\<close> is the time \<open>x\<close> seconds after the epoch, to the microsecond.
\<close>

definition EXTRACT_epoch :: "Time \<Rightarrow> real" where
  "EXTRACT_epoch t = real_of_int t / 1000000000"

definition CAST_BIGINT :: "real \<Rightarrow> int" where
  "CAST_BIGINT x =
     (if x - real_of_int \<lfloor>x\<rfloor> < 1 / 2 then \<lfloor>x\<rfloor>
      else if x - real_of_int \<lfloor>x\<rfloor> > 1 / 2 then \<lfloor>x\<rfloor> + 1
      else if even \<lfloor>x\<rfloor> then \<lfloor>x\<rfloor> else \<lfloor>x\<rfloor> + 1)"

definition sql_divide :: "int \<Rightarrow> int \<Rightarrow> real" where
  "sql_divide a b = real_of_int a / real_of_int b"

definition sql_integer_divide :: "int \<Rightarrow> int \<Rightarrow> real" where
  "sql_integer_divide a b = real_of_int (a sdiv b)"

definition to_timestamp :: "real \<Rightarrow> Time" where
  "to_timestamp x = round (x * 1000000) * 1000"

text \<open>
  The bucket expression
  \<open>to_timestamp((CAST(EXTRACT(epoch FROM timestamp) AS BIGINT) / %d) * %d)\<close>
  with \<open>bucketSeconds\<close> printed into both places; \<open>slash\<close> is the meaning of \<open>/\<close>.
\<close>

definition bucket_expr :: "(int \<Rightarrow> int \<Rightarrow> real) \<Rightarrow> int \<Rightarrow> Time \<Rightarrow> Time" where
  "bucket_expr slash bucketSeconds t =
     to_timestamp (slash (CAST_BIGINT (EXTRACT_epoch t)) bucketSeconds * real_of_int bucketSeconds)"

text \<open>
  An SQL aggregate over the \<open>value\<close> column of a group: \<open>NULL\<close>s are skipped; over no
  value \<open>COUNT\<close> is 0 and the others are \<open>NULL\<close>.
\<close>

definition sql_aggregate :: "string \<Rightarrow> real option list \<Rightarrow> real option" where
  "sql_aggregate f column =
     (let vs = map the (filter (\<lambda>v. v \<noteq> None) column) in
      if f = ''COUNT'' then Some (real (length vs))
      else if vs = [] then None
      else if f = ''SUM'' then Some (sum_list vs)
      else if f = ''MIN'' then Some (fold min vs (hd vs))
      else if f = ''MAX'' then Some (fold max vs (hd vs))
      else Some (sum_list vs / real (length vs)))"

definition Aggregate_where :: "AggregationRequest \<Rightarrow> MetricRecord \<Rightarrow> bool" where
  "Aggregate_where req row =
     (MetricRecord_MetricName row = req_MetricName req \<and>
      MetricRecord_Timestamp row \<ge> req_StartTime req \<and>
      MetricRecord_Timestamp row \<le> req_EndTime req \<and>
      (req_ServiceName req = [] \<or> MetricRecord_ServiceName row = req_ServiceName req))"

text \<open>
  The rows of the result: \<open>GROUP BY bucket ORDER BY bucket ASC\<close>, one row per bucket
  that some selected row falls into.
\<close>

definition aggregate_rows :: "(int \<Rightarrow> int \<Rightarrow> real) \<Rightarrow> db \<Rightarrow> AggregationRequest \<Rightarrow> (Time \<times> real option) list" where
  "aggregate_rows slash d req =
     (let bucketSeconds = parseBucketSizeToSeconds (req_BucketSize req);
          selected = filter (Aggregate_where req) (metrics_table d);
          bucket = (\<lambda>row. bucket_expr slash bucketSeconds (MetricRecord_Timestamp row))
      in map (\<lambda>b. (b, sql_aggregate (aggFunc (req_Aggregation req))
                         (map MetricRecord_Value (filter (\<lambda>row. bucket row = b) selected))))
           (sort (remdups (map bucket selected))))"

text \<open>
  The scan loop: a \<open>NULL\<close> aggregate does not scan into \<open>result.Value\<close>, a \<open>float64\<close>,
  and ends the call with an error.
\<close>

fun scan_results :: "AggregationRequest \<Rightarrow> (Time \<times> real option) list \<Rightarrow> error + AggregationResult list" where
  "scan_results req [] = Inr []"
| "scan_results req ((b, v) # rows) =
     (case v of
        None \<Rightarrow> Inl (Error ''failed to scan aggregation result'')
      | Some x \<Rightarrow>
          (case scan_results req rows of
             Inl e \<Rightarrow> Inl e
           | Inr results \<Rightarrow>
               Inr (\<lparr>res_TimeBucket = b,
                     res_MetricName = req_MetricName req,
                     res_AggregationType = req_Aggregation req,
                     res_Value = x,
                     res_Unit = []\<rparr> # results)))"

definition AggregateMetrics_with :: "(int \<Rightarrow> int \<Rightarrow> real) \<Rightarrow> driver \<Rightarrow> db \<Rightarrow> AggregationRequest \<Rightarrow> error + AggregationResult list" where
  "AggregateMetrics_with slash drv d req =
     (if drv SelectAggregate then Inl (Error ''failed to aggregate metrics'')
      else scan_results req (aggregate_rows slash d req))"

text \<open>\<open>AggregateMetrics\<close>, the query as the engine runs it.\<close>

definition AggregateMetrics :: "driver \<Rightarrow> db \<Rightarrow> AggregationRequest \<Rightarrow> error + AggregationResult list" where
  "AggregateMetrics = AggregateMetrics_with sql_divide"

section \<open>Maps as objects of a store\<close>

text \<open>
  A Go map is a reference: two variables can name the same map, and a write through one
  is seen through the other. To say what \<open>mergeAttributes\<close> does to the maps it is given,
  the maps live in a store, a list of maps addressed by position; a map variable is an
  address or \<open>nil\<close>. \<open>make\<close> allocates the next address; \<open>result[k] = v\<close> updates the
  map at the address of \<open>result\<close>; \<open>range\<close> reads the entries of its map when the loop
  starts.
\<close>

type_synonym heap = "(string \<times> iface) list list"

type_synonym mapref = "nat option"

definition deref :: "heap \<Rightarrow> mapref \<Rightarrow> (string \<times> iface) list" where
  "deref h m = (case m of None \<Rightarrow> [] | Some a \<Rightarrow> h ! a)"

definition range_put :: "nat \<Rightarrow> (string \<times> iface) list \<Rightarrow> heap \<Rightarrow> heap" where
  "range_put result kvs h = fold (\<lambda>(k, v) hp. hp[result := AList.update k v (hp ! result)]) kvs h"

definition mergeAttributes_store :: "heap \<Rightarrow> mapref \<Rightarrow> mapref \<Rightarrow> heap \<times> mapref" where
  "mergeAttributes_store h m1 m2 =
     (let result = length h;
          h0 = h @ [[]];
          h1 = range_put result (deref h0 m1) h0;
          h2 = range_put result (deref h1 m2) h1
      in (h2, Some result))"

text \<open>
  A map variable of the program is \<open>nil\<close> or names a map of the store, and a Go map holds
  each key once.
\<close>

definition valid_ref :: "heap \<Rightarrow> mapref \<Rightarrow> bool" where
  "valid_ref h m = (case m of None \<Rightarrow> True | Some a \<Rightarrow> a < length h)"

definition wf_heap :: "heap \<Rightarrow> bool" where
  "wf_heap h = list_all (\<lambda>kvs. distinct (map fst kvs)) h"

text \<open>The map a variable names, as a value.\<close>

definition value_of :: "heap \<Rightarrow> mapref \<Rightarrow> gomap" where
  "value_of h m = (case m of None \<Rightarrow> None | Some a \<Rightarrow> Some (h ! a))"

section \<open>Notions the properties are stated with\<close>

text \<open>
  The spans of a batch in the order the loops visit them, the spans of one trace id among
  a list of spans, and the error spans of a trace id in a batch.
\<close>

definition all_spans :: "ptrace_Traces \<Rightarrow> Span_otlp list" where
  "all_spans td = concat (map (\<lambda>rs. concat (map Spans_of (rs_ScopeSpans rs))) td)"

definition of_trace :: "string \<Rightarrow> Span_otlp list \<Rightarrow> Span_otlp list" where
  "of_trace traceID sps = filter (\<lambda>sp. ID_String (span_TraceID sp) = traceID) sps"

definition is_error :: "Span_otlp \<Rightarrow> bool" where
  "is_error sp = (span_StatusCode sp = StatusCodeError)"

definition error_spans :: "ptrace_Traces \<Rightarrow> string \<Rightarrow> Span_otlp list" where
  "error_spans td traceID = filter is_error (of_trace traceID (all_spans td))"

text \<open>
  What an aggregate holds of the spans \<open>xs\<close> of its trace, in the order they were seen:
  their number, the number of error spans after the first, the earliest start and the
  latest end.
\<close>

definition summarises :: "Trace \<Rightarrow> Span_otlp list \<Rightarrow> bool" where
  "summarises t xs =
     (xs \<noteq> [] \<and>
      Trace_SpanCount t = int (length xs) \<and>
      Trace_ErrorCount t = int (length (filter is_error (tl xs))) \<and>
      Trace_StartTime t = Min (set (map (\<lambda>sp. time_Unix0 (span_StartTimestamp sp)) xs)) \<and>
      Trace_EndTime t = Max (set (map (\<lambda>sp. time_Unix0 (span_EndTimestamp sp)) xs)))"

text \<open>
  The invariant of the loops of \<open>TransformTraces\<close>, after the spans \<open>seen\<close>: the working map
  has one aggregate per trace id seen, under its own id, and each summarises the spans of
  its trace.
\<close>

definition aggregates :: "tstate \<Rightarrow> Span_otlp list \<Rightarrow> bool" where
  "aggregates st seen =
     (distinct (map fst (traces st)) \<and>
      (\<forall>traceID. case map_of (traces st) traceID of
          None \<Rightarrow> of_trace traceID seen = []
        | Some t \<Rightarrow> Trace_TraceID t = traceID \<and> summarises t (of_trace traceID seen)))"

text \<open>The rows a list of records becomes when each takes the next \<open>id\<close>, starting at \<open>n\<close>.\<close>

fun stored_rows :: "int \<Rightarrow> LogRecord list \<Rightarrow> LogRecord list" where
  "stored_rows n [] = []"
| "stored_rows n (lr # lrs) = lr\<lparr>LogRecord_ID := n\<rparr> # stored_rows (n + 1) lrs"

text \<open>The records before the first one whose insert the driver fails.\<close>

definition accepted :: "driver \<Rightarrow> LogRecord list \<Rightarrow> LogRecord list" where
  "accepted drv lrs = takeWhile (\<lambda>lr. \<not> drv (InsertLogRow lr)) lrs"

text \<open>The buckets and values of an aggregation result.\<close>

definition buckets_and_values :: "error + AggregationResult list \<Rightarrow> (Time \<times> real) list" where
  "buckets_and_values r =
     (case r of Inl e \<Rightarrow> [] | Inr results \<Rightarrow> map (\<lambda>x. (res_TimeBucket x, res_Value x)) results)"

text \<open>
  For the compare endpoint: the trace ids of a request, in order, up to the first one
  \<open>GetTraceByID\<close> returns an error for; the traces it returns for a list of ids; and
  what the store holds for a trace id, its row with its spans by start time.
\<close>

definition fetched :: "driver \<Rightarrow> db \<Rightarrow> string list \<Rightarrow> string list" where
  "fetched drv d ids = takeWhile (\<lambda>traceID. \<not> isl (GetTraceByID drv d traceID)) ids"

definition traces_of :: "driver \<Rightarrow> db \<Rightarrow> string list \<Rightarrow> Trace list" where
  "traces_of drv d ids = map (\<lambda>traceID. projr (GetTraceByID drv d traceID)) ids"

definition stored :: "db \<Rightarrow> string \<Rightarrow> Trace option" where
  "stored d traceID =
     map_option
       (\<lambda>row. row\<lparr>Trace_Spans :=
                 sort_key Span_StartTime (filter (\<lambda>sp. Span_TraceID sp = traceID) (spans_table d))\<rparr>)
       (find (\<lambda>row. Trace_TraceID row = traceID) (traces_table d))"

section \<open>Concrete inputs\<close>

definition never_fails :: driver where
  "never_fails call = False"

definition refuses_body :: "string \<Rightarrow> driver" where
  "refuses_body body call = (case call of InsertLogRow lr \<Rightarrow> LogRecord_Body lr = body | _ \<Rightarrow> False)"

definition empty_db :: db where
  "empty_db = \<lparr>traces_table = [], spans_table = [], logs_table = [], metrics_table = [], logs_id_seq = 1\<rparr>"

text \<open>
  A span of trace \<open>00000000000000000000000000000001\<close> with the given span id, times (in
  nanoseconds) and status code, and a request with one resource and one scope.
\<close>

definition example_span :: "8 word \<Rightarrow> 64 word \<Rightarrow> 64 word \<Rightarrow> int \<Rightarrow> Span_otlp" where
  "example_span spanID start end code =
     \<lparr>span_TraceID = [0, 0, 0, 0, 0, 0, 0, 0, 0, 0, 0, 0, 0, 0, 0, 1],
      span_SpanID = [0, 0, 0, 0, 0, 0, 0, spanID],
      span_ParentSpanID = [0, 0, 0, 0, 0, 0, 0, 0],
      span_Name = ''op'',
      span_Kind = 2,
      span_StartTimestamp = start,
      span_EndTimestamp = end,
      span_StatusCode = code,
      span_StatusMessage = [],
      span_Attributes = [],
      span_Events = [],
      span_Links = []\<rparr>"

definition example_batch :: "Span_otlp list \<Rightarrow> ptrace_Traces" where
  "example_batch sps =
     [\<lparr>rs_Resource_Attributes = [(''service.name'', ValueTypeStr ''svc1'')],
       rs_ScopeSpans = [\<lparr>Spans_of = sps\<rparr>]\<rparr>]"

text \<open>One span, from 0 to 10 ms, with status Error.\<close>

definition error_first_batch :: ptrace_Traces where
  "error_first_batch = example_batch [example_span 1 0 10000000 2]"

text \<open>A span from 10 ms to 20 ms, then one of the same trace from 0 to 15 ms.\<close>

definition widen_start_batch :: ptrace_Traces where
  "widen_start_batch =
     example_batch [example_span 1 10000000 20000000 0, example_span 2 0 15000000 0]"

definition example_log :: "string \<Rightarrow> string option \<Rightarrow> LogRecord" where
  "example_log body traceID =
     \<lparr>LogRecord_ID = 0,
      LogRecord_Timestamp = 1700000000000000000,
      LogRecord_TraceID = traceID,
      LogRecord_SpanID = None,
      LogRecord_SeverityText = ''INFO'',
      LogRecord_SeverityNumber = 9,
      LogRecord_Body = body,
      LogRecord_ServiceName = ''svc1'',
      LogRecord_Attributes = None,
      LogRecord_ResourceAttributes = None\<rparr>"

definition two_logs :: "LogRecord list" where
  "two_logs = [example_log ''first'' None, example_log ''second'' None]"

text \<open>Two stored logs, of two traces, and a filter on the trace id of the first.\<close>

definition two_traces_db :: db where
  "two_traces_db =
     empty_db\<lparr>logs_table := [(example_log ''first'' (Some ''0a''))\<lparr>LogRecord_ID := 1\<rparr>,
                             (example_log ''second'' (Some ''0b''))\<lparr>LogRecord_ID := 2\<rparr>],
              logs_id_seq := 3\<rparr>"

definition trace_filter :: LogFilters where
  "trace_filter =
     \<lparr>LogFilters_StartTime = zero_Time,
      LogFilters_EndTime = zero_Time,
      LogFilters_ServiceName = [],
      LogFilters_TraceID = ''0a'',
      LogFilters_MinSeverity = 0,
      LogFilters_SearchText = [],
      LogFilters_Limit = 100,
      LogFilters_Offset = 0\<rparr>"

text \<open>
  Ten points of one metric, one minute apart from \<open>T = 1700000100\<close> seconds (a multiple of
  300), with the values 100, 110, ..., 190, and a request over them with 5-minute buckets.
\<close>

definition example_metric :: "int \<Rightarrow> MetricRecord" where
  "example_metric i =
     \<lparr>MetricRecord_ID = i + 1,
      MetricRecord_Timestamp = (1700000100 + i * 60) * 1000000000,
      MetricRecord_MetricName = ''http.server.requests'',
      MetricRecord_MetricType = ''sum'',
      MetricRecord_ServiceName = ''test-service'',
      MetricRecord_Value = Some (real_of_int (100 + i * 10)),
      MetricRecord_Attributes = None,
      MetricRecord_Exemplars = []\<rparr>"

definition ten_points_db :: db where
  "ten_points_db =
     \<lparr>traces_table = [], spans_table = [], logs_table = [],
      metrics_table = map example_metric [0, 1, 2, 3, 4, 5, 6, 7, 8, 9], logs_id_seq = 1\<rparr>"

definition example_request :: "string \<Rightarrow> AggregationRequest" where
  "example_request aggregation =
     \<lparr>req_MetricName = ''http.server.requests'',
      req_ServiceName = [],
      req_StartTime = (1700000100 - 60) * 1000000000,
      req_EndTime = (1700000100 + 660) * 1000000000,
      req_Aggregation = aggregation,
      req_BucketSize = ''5 minutes''\<rparr>"

text \<open>A request with one metric, and datapoints that carry no attribute.\<close>

definition one_metric :: "MetricData \<Rightarrow> pmetric_Metrics" where
  "one_metric data =
     [\<lparr>rm_Resource_Attributes = [(''service.name'', ValueTypeStr ''svc1'')],
       rm_ScopeMetrics = [\<lparr>Metrics_of = [\<lparr>metric_Name = ''http.server.duration'', metric_Data = data\<rparr>]\<rparr>]\<rparr>]"

definition bare_histogram :: MetricData where
  "bare_histogram =
     MetricTypeHistogram
       [\<lparr>hdp_Attributes = [], hdp_Timestamp = 0, hdp_Count = 2, hdp_Sum = 3,
         hdp_BucketCounts = [1, 1], hdp_ExplicitBounds = [1], hdp_Exemplars = []\<rparr>]"

definition bare_exponential_histogram :: MetricData where
  "bare_exponential_histogram =
     MetricTypeExponentialHistogram
       [\<lparr>edp_Attributes = [], edp_Timestamp = 0, edp_Count = 2, edp_Sum = 3, edp_Scale = 1,
         edp_Exemplars = []\<rparr>]"

definition bare_summary :: MetricData where
  "bare_summary =
     MetricTypeSummary
       [\<lparr>sdp_Attributes = [], sdp_Timestamp = 0, sdp_Count = 2, sdp_Sum = 3,
         sdp_QuantileValues = [(1 / 2, 1)]\<rparr>]"

text \<open>A stored trace with one span, and a later batch of the same trace.\<close>

definition stored_span :: Span where
  "stored_span =
     \<lparr>Span_SpanID = ''0000000000000001'',
      Span_TraceID = ''00000000000000000000000000000001'',
      Span_ParentSpanID = None,
      Span_ServiceName = ''svc1'',
      Span_OperationName = ''GET /a'',
      Span_SpanKind = ''server'',
      Span_StartTime = 0,
      Span_EndTime = 10000000,
      Span_DurationMs = 10,
      Span_StatusCode = 0,
      Span_StatusMessage = None,
      Span_Attributes = None,
      Span_Events = [],
      Span_Links = []\<rparr>"

definition stored_trace :: Trace where
  "stored_trace =
     \<lparr>Trace_TraceID = ''00000000000000000000000000000001'',
      Trace_ServiceName = ''svc1'',
      Trace_OperationName = ''GET /a'',
      Trace_StartTime = 0,
      Trace_EndTime = 10000000,
      Trace_DurationMs = 10,
      Trace_SpanCount = 1,
      Trace_ErrorCount = 0,
      Trace_StatusCode = 0,
      Trace_Attributes = Some [(''service.name'', IStr ''svc1'')],
      Trace_Spans = []\<rparr>"

definition one_trace_db :: db where
  "one_trace_db = empty_db\<lparr>traces_table := [stored_trace], spans_table := [stored_span]\<rparr>"

definition later_batch :: Trace where
  "later_batch =
     \<lparr>Trace_TraceID = ''00000000000000000000000000000001'',
      Trace_ServiceName = ''svc2'',
      Trace_OperationName = ''db query'',
      Trace_StartTime = 5000000,
      Trace_EndTime = 30000000,
      Trace_DurationMs = 25,
      Trace_SpanCount = 3,
      Trace_ErrorCount = 1,
      Trace_StatusCode = 2,
      Trace_Attributes = Some [(''service.name'', IStr ''svc2''), (''db.system'', IStr ''postgresql'')],
      Trace_Spans = []\<rparr>"

text \<open>A second stored trace, a store that holds both, and a driver that fails every call.\<close>

definition second_span :: Span where
  "second_span =
     \<lparr>Span_SpanID = ''0000000000000002'',
      Span_TraceID = ''00000000000000000000000000000002'',
      Span_ParentSpanID = None,
      Span_ServiceName = ''svc2'',
      Span_OperationName = ''GET /b'',
      Span_SpanKind = ''server'',
      Span_StartTime = 0,
      Span_EndTime = 30000000,
      Span_DurationMs = 30,
      Span_StatusCode = 2,
      Span_StatusMessage = None,
      Span_Attributes = None,
      Span_Events = [],
      Span_Links = []\<rparr>"

definition second_trace :: Trace where
  "second_trace =
     \<lparr>Trace_TraceID = ''00000000000000000000000000000002'',
      Trace_ServiceName = ''svc2'',
      Trace_OperationName = ''GET /b'',
      Trace_StartTime = 0,
      Trace_EndTime = 30000000,
      Trace_DurationMs = 30,
      Trace_SpanCount = 1,
      Trace_ErrorCount = 1,
      Trace_StatusCode = 2,
      Trace_Attributes = None,
      Trace_Spans = []\<rparr>"

definition two_stored_traces_db :: db where
  "two_stored_traces_db =
     \<lparr>traces_table = [stored_trace, second_trace], spans_table = [stored_span, second_span],
      logs_table = [], metrics_table = [], logs_id_seq = 1\<rparr>"

definition always_fails :: driver where
  "always_fails call = True"

text \<open>A store of two maps that share the key \<open>a\<close>.\<close>

definition two_maps :: heap where
  "two_maps = [[(''a'', IInt 1), (''b'', IStr ''x'')], [(''a'', IInt 2), (''c'', IBool True)]]"

section \<open>Attribute maps\<close>

lemma put_all_Cons: "put_all ((k, v) # kvs) acc = put_all kvs (AList.update k v acc)"
  by (simp add: put_all_def)

lemma map_of_put_all:
  "distinct (map fst kvs) \<Longrightarrow> map_of (put_all kvs acc) = map_of acc ++ map_of kvs"
proof (induction kvs arbitrary: acc)
  case Nil
  show ?case by (simp add: put_all_def)
next
  case (Cons kv kvs)
  obtain k v where kv: "kv = (k, v)" by (cases kv)
  from Cons.prems kv have k: "k \<notin> fst ` set kvs" and d: "distinct (map fst kvs)" by auto
  from k have none: "map_of kvs k = None" by (simp add: map_of_eq_None_iff)
  have "map_of (put_all (kv # kvs) acc) = map_of (put_all kvs (AList.update k v acc))"
    by (simp add: kv put_all_Cons)
  also have "\<dots> = map_of (AList.update k v acc) ++ map_of kvs"
    by (rule Cons.IH [OF d])
  also have "\<dots> = map_of acc ++ map_of (kv # kvs)"
    using none by (auto simp: fun_eq_iff map_add_def kv update_conv' split: option.splits)
  finally show ?case .
qed

lemma distinct_put_all: "distinct (map fst acc) \<Longrightarrow> distinct (map fst (put_all kvs acc))"
  by (induction kvs arbitrary: acc) (auto simp: put_all_def distinct_update)

lemma attributesToMap_empty: "attributesToMap [] = None"
  by (simp add: attributesToMap_def)

lemma attributesToMap_nonempty:
  "attrs \<noteq> [] \<Longrightarrow> \<exists>kvs. attributesToMap attrs = Some kvs \<and> distinct (map fst kvs)"
  by (simp add: attributesToMap_def distinct_put_all)

lemma lookup_mergeAttributes:
  "distinct (map fst kvs) \<Longrightarrow> map_of kvs k = Some v \<Longrightarrow> lookup (mergeAttributes m (Some kvs)) k = Some v"
  by (simp add: lookup_def entries_def mergeAttributes_def map_of_put_all)

section \<open>The trace transformer: counts, times and duration\<close>

lemma summarises_first:
  "summarises
     \<lparr>Trace_TraceID = tid, Trace_ServiceName = sn, Trace_OperationName = n,
      Trace_StartTime = Span_StartTime (convertSpan sn sp),
      Trace_EndTime = Span_EndTime (convertSpan sn sp),
      Trace_DurationMs = dur, Trace_SpanCount = 1, Trace_ErrorCount = 0,
      Trace_StatusCode = c, Trace_Attributes = a, Trace_Spans = []\<rparr> [sp]"
  by (simp add: summarises_def convertSpan_def)

lemma update_trace_SpanCount: "Trace_SpanCount (update_trace s t) = Trace_SpanCount t + 1"
  by (simp add: update_trace_def Let_def)

lemma update_trace_ErrorCount:
  "Trace_ErrorCount (update_trace s t) =
     (if Span_StatusCode s = StatusCodeError then Trace_ErrorCount t + 1 else Trace_ErrorCount t)"
  by (simp add: update_trace_def Let_def)

lemma update_trace_StartTime:
  "Trace_StartTime (update_trace s t) = min (Span_StartTime s) (Trace_StartTime t)"
  by (simp add: update_trace_def Let_def Before_def After_def min_def)

lemma update_trace_EndTime:
  "Trace_EndTime (update_trace s t) = max (Span_EndTime s) (Trace_EndTime t)"
  by (simp add: update_trace_def Let_def Before_def After_def max_def)

lemma update_trace_DurationMs:
  "Trace_DurationMs (update_trace s t) =
     (if After (Span_EndTime s) (Trace_EndTime t)
      then Milliseconds (Sub (Span_EndTime s) (min (Span_StartTime s) (Trace_StartTime t)))
      else Trace_DurationMs t)"
  by (simp add: update_trace_def Let_def Before_def After_def min_def)

lemma Min_snoc: "xs \<noteq> [] \<Longrightarrow> Min (set (map f (xs @ [x]))) = min (f x) (Min (set (map f xs)))"
  by simp

lemma Max_snoc: "xs \<noteq> [] \<Longrightarrow> Max (set (map f (xs @ [x]))) = max (f x) (Max (set (map f xs)))"
  by simp

lemma summarises_update:
  assumes "summarises t xs"
  shows "summarises (update_trace (convertSpan sn sp) t) (xs @ [sp])"
proof -
  from assms have ne: "xs \<noteq> []"
    and c: "Trace_SpanCount t = int (length xs)"
    and e: "Trace_ErrorCount t = int (length (filter is_error (tl xs)))"
    and s: "Trace_StartTime t = Min (set (map (\<lambda>sp. time_Unix0 (span_StartTimestamp sp)) xs))"
    and f: "Trace_EndTime t = Max (set (map (\<lambda>sp. time_Unix0 (span_EndTimestamp sp)) xs))"
    by (simp_all add: summarises_def)
  have tl: "tl (xs @ [sp]) = tl xs @ [sp]" using ne by simp
  have 1: "Trace_SpanCount (update_trace (convertSpan sn sp) t) = int (length (xs @ [sp]))"
    by (simp add: update_trace_SpanCount c)
  have 2: "Trace_ErrorCount (update_trace (convertSpan sn sp) t) =
      int (length (filter is_error (tl (xs @ [sp]))))"
    by (simp add: update_trace_ErrorCount e tl is_error_def convertSpan_def)
  have 3: "Trace_StartTime (update_trace (convertSpan sn sp) t) =
      Min (set (map (\<lambda>sp. time_Unix0 (span_StartTimestamp sp)) (xs @ [sp])))"
    by (simp only: update_trace_StartTime s Min_snoc [OF ne]) (simp add: convertSpan_def)
  have 4: "Trace_EndTime (update_trace (convertSpan sn sp) t) =
      Max (set (map (\<lambda>sp. time_Unix0 (span_EndTimestamp sp)) (xs @ [sp])))"
    by (simp only: update_trace_EndTime f Max_snoc [OF ne]) (simp add: convertSpan_def)
  show ?thesis
    unfolding summarises_def using 1 2 3 4 by blast
qed

lemma trace_id_update [simp]: "Trace_TraceID (update_trace s t) = Trace_TraceID t"
  by (simp add: update_trace_def Let_def)

lemma aggregates_add_span:
  assumes "aggregates st seen"
  shows "aggregates (add_span ra sn st sp) (seen @ [sp])"
proof -
  let ?k = "ID_String (span_TraceID sp)"
  from assms have d: "distinct (map fst (traces st))"
    and inv: "\<And>traceID. case map_of (traces st) traceID of
          None \<Rightarrow> of_trace traceID seen = []
        | Some t \<Rightarrow> Trace_TraceID t = traceID \<and> summarises t (of_trace traceID seen)"
    by (simp_all add: aggregates_def)
  have other: "of_trace traceID (seen @ [sp]) = of_trace traceID seen" if "traceID \<noteq> ?k" for traceID
    using that by (auto simp: of_trace_def)
  have same: "of_trace ?k (seen @ [sp]) = of_trace ?k seen @ [sp]"
    by (simp add: of_trace_def)
  show ?thesis
  proof (cases "map_of (traces st) ?k")
    case None
    with inv [of ?k] have e: "of_trace ?k seen = []" by simp
    have "case map_of (traces (add_span ra sn st sp)) traceID of
          None \<Rightarrow> of_trace traceID (seen @ [sp]) = []
        | Some t \<Rightarrow> Trace_TraceID t = traceID \<and> summarises t (of_trace traceID (seen @ [sp]))" for traceID
    proof (cases "traceID = ?k")
      case True
      then show ?thesis
        using None e same
        by (simp add: add_span_def Let_def update_conv' summarises_first split: option.splits)
    next
      case False
      then show ?thesis
        using None inv [of traceID] other [of traceID]
        by (simp add: add_span_def Let_def update_conv' split: option.splits)
    qed
    moreover have "distinct (map fst (traces (add_span ra sn st sp)))"
      using None d by (simp add: add_span_def Let_def distinct_update)
    ultimately show ?thesis by (simp add: aggregates_def)
  next
    case (Some t0)
    with inv [of ?k] have s: "Trace_TraceID t0 = ?k" "summarises t0 (of_trace ?k seen)" by simp_all
    have "case map_of (traces (add_span ra sn st sp)) traceID of
          None \<Rightarrow> of_trace traceID (seen @ [sp]) = []
        | Some t \<Rightarrow> Trace_TraceID t = traceID \<and> summarises t (of_trace traceID (seen @ [sp]))" for traceID
    proof (cases "traceID = ?k")
      case True
      then show ?thesis
        using Some s same summarises_update [OF s(2), of sn sp]
        by (simp add: add_span_def Let_def update_conv' split: option.splits)
    next
      case False
      then show ?thesis
        using Some inv [of traceID] other [of traceID]
        by (simp add: add_span_def Let_def update_conv' split: option.splits)
    qed
    moreover have "distinct (map fst (traces (add_span ra sn st sp)))"
      using Some d by (simp add: add_span_def Let_def distinct_update)
    ultimately show ?thesis by (simp add: aggregates_def)
  qed
qed

lemma aggregates_spans:
  "aggregates st seen \<Longrightarrow> aggregates (foldl (add_span ra sn) st sps) (seen @ sps)"
proof (induction sps arbitrary: st seen)
  case Nil
  then show ?case by simp
next
  case (Cons sp sps)
  from Cons.IH [OF aggregates_add_span [OF Cons.prems, of ra sn sp]] show ?case by simp
qed

lemma aggregates_scopes:
  "aggregates st seen \<Longrightarrow>
   aggregates (foldl (add_scope ra sn) st sss) (seen @ concat (map Spans_of sss))"
proof (induction sss arbitrary: st seen)
  case Nil
  then show ?case by simp
next
  case (Cons ss sss)
  from Cons.IH [OF aggregates_spans [OF Cons.prems, of ra sn "Spans_of ss"]] show ?case
    by (simp add: add_scope_def)
qed

lemma aggregates_resources:
  "aggregates st seen \<Longrightarrow> aggregates (foldl add_resource st td) (seen @ all_spans td)"
proof (induction td arbitrary: st seen)
  case Nil
  then show ?case by (simp add: all_spans_def)
next
  case (Cons rs td)
  have "aggregates (add_resource st rs) (seen @ concat (map Spans_of (rs_ScopeSpans rs)))"
    using aggregates_scopes [OF Cons.prems] by (simp add: add_resource_def Let_def)
  from Cons.IH [OF this] show ?case by (simp add: all_spans_def)
qed

lemma aggregates_init: "aggregates \<lparr>traces = [], allSpans = []\<rparr> []"
  by (simp add: aggregates_def of_trace_def)

lemma TransformTraces_summarises:
  assumes "t \<in> set (TransformTraces td)"
  shows "summarises t (of_trace (Trace_TraceID t) (all_spans td))"
proof -
  let ?st = "foldl add_resource \<lparr>traces = [], allSpans = []\<rparr> td"
  have a: "aggregates ?st (all_spans td)"
    using aggregates_resources [OF aggregates_init, of td] by simp
  from assms obtain traceID t0 where m: "(traceID, t0) \<in> set (traces ?st)"
    and t: "t = t0\<lparr>Trace_Spans := spans_of (allSpans ?st) traceID\<rparr>"
    by (auto simp: TransformTraces_def Let_def)
  from a have "distinct (map fst (traces ?st))" by (simp add: aggregates_def)
  with m have "map_of (traces ?st) traceID = Some t0" by simp
  with a have "Trace_TraceID t0 = traceID" "summarises t0 (of_trace traceID (all_spans td))"
    by (auto simp: aggregates_def dest: spec [of _ traceID])
  with t show ?thesis by (simp add: summarises_def)
qed

text \<open>
  For every batch and every emitted trace: the span count is the number of the batch's
  spans of the trace, the start and end times are the earliest start and the latest end,
  and the error count is the number of error spans of the trace after its first span.
\<close>

lemma TransformTraces_counts:
  assumes "t \<in> set (TransformTraces td)"
  shows "Trace_SpanCount t = int (length (of_trace (Trace_TraceID t) (all_spans td))) \<and>
         Trace_ErrorCount t =
           int (length (error_spans td (Trace_TraceID t))) -
           (if is_error (hd (of_trace (Trace_TraceID t) (all_spans td))) then 1 else 0)"
proof -
  let ?xs = "of_trace (Trace_TraceID t) (all_spans td)"
  from TransformTraces_summarises [OF assms] have ne: "?xs \<noteq> []"
    and c: "Trace_SpanCount t = int (length ?xs)"
    and e: "Trace_ErrorCount t = int (length (filter is_error (tl ?xs)))"
    by (simp_all add: summarises_def)
  from ne have "length (filter is_error ?xs) =
      length (filter is_error (tl ?xs)) + (if is_error (hd ?xs) then 1 else 0)"
    by (cases ?xs) simp_all
  with c e show ?thesis by (simp add: error_spans_def)
qed

text \<open>
  C1. The claim: for every batch, the aggregate emitted for a trace id has an error count
  equal to the number of the batch's spans of that trace whose status code is Error,
  also when the first span seen for the trace is an error span. The aggregate that the
  first span creates starts with \<open>ErrorCount\<close> 0 whatever the span's status, and only
  later spans are counted (\<open>TransformTraces_counts\<close>): on a batch of one span with status
  Error the emitted trace has span count 1 and error count 0, where the batch has 1 error
  span of that trace.
\<close>

theorem TransformTraces_first_error_span_uncounted:
  "map (\<lambda>t. (Trace_TraceID t, Trace_SpanCount t, Trace_ErrorCount t,
              length (error_spans error_first_batch (Trace_TraceID t))))
     (TransformTraces error_first_batch) =
   [(''00000000000000000000000000000001'', 1, 0, 1)]"
  by code_simp

text \<open>
  C2. The claim: after a batch, every emitted aggregate has a duration equal to its end
  time minus its start time in milliseconds, also after a span that only moves the
  start time back. The duration is recomputed only in the branch that moves the end time
  (\<open>update_trace_DurationMs\<close>), while the start time is the earliest start in every case
  (\<open>update_trace_StartTime\<close>): a span from 10 ms to 20 ms followed by a span of the same
  trace from 0 to 15 ms leaves start 0, end 20 ms and the duration 10 of the first span,
  where end minus start is 20.
\<close>

theorem TransformTraces_duration_stale_after_earlier_start:
  "map (\<lambda>t. (Trace_StartTime t, Trace_EndTime t, Trace_DurationMs t,
              Milliseconds (Sub (Trace_EndTime t) (Trace_StartTime t))))
     (TransformTraces widen_start_batch) =
   [(0, 20000000, 10, 20)]"
  by code_simp

section \<open>The metric transformer: datapoints without attributes\<close>

lemma histogram_record_bare:
  "hdp_Attributes dp = [] \<Longrightarrow>
   histogram_record metricName serviceName resourceAttrs dp = Inl AssignmentToEntryInNilMap"
  by (simp add: histogram_record_def attributesToMap_empty map_assign_def)

lemma exponential_record_bare:
  "edp_Attributes dp = [] \<Longrightarrow>
   exponential_record metricName serviceName resourceAttrs dp = Inl AssignmentToEntryInNilMap"
  by (simp add: exponential_record_def attributesToMap_empty map_assign_def)

lemma summary_record_bare:
  "sdp_Attributes dp = [] \<Longrightarrow>
   summary_record metricName serviceName resourceAttrs dp = Inl AssignmentToEntryInNilMap"
  by (simp add: summary_record_def attributesToMap_empty map_assign_def)

text \<open>
  With at least one attribute the map is not \<open>nil\<close>, and the record of a histogram
  datapoint has the three keys.
\<close>

lemma histogram_record_attributes:
  assumes "hdp_Attributes dp \<noteq> []"
  shows "\<exists>record. histogram_record metricName serviceName resourceAttrs dp = Inr record \<and>
           lookup (MetricRecord_Attributes record) ''count'' = Some (IUint (hdp_Count dp)) \<and>
           lookup (MetricRecord_Attributes record) ''sum'' = Some (IDouble (hdp_Sum dp)) \<and>
           lookup (MetricRecord_Attributes record) ''buckets'' = Some (histogram_buckets dp)"
proof -
  from attributesToMap_nonempty [OF assms] obtain kvs
    where a: "attributesToMap (hdp_Attributes dp) = Some kvs"
      and d: "distinct (map fst kvs)"
    by auto
  let ?attrs = "AList.update ''buckets'' (histogram_buckets dp)
      (AList.update ''sum'' (IDouble (hdp_Sum dp)) (AList.update ''count'' (IUint (hdp_Count dp)) kvs))"
  have dd: "distinct (map fst ?attrs)"
    using d by (simp add: distinct_update)
  have m: "map_of ?attrs ''count'' = Some (IUint (hdp_Count dp))"
    "map_of ?attrs ''sum'' = Some (IDouble (hdp_Sum dp))"
    "map_of ?attrs ''buckets'' = Some (histogram_buckets dp)"
    by (simp_all add: update_conv')
  show ?thesis
    using a lookup_mergeAttributes [OF dd m(1)] lookup_mergeAttributes [OF dd m(2)]
      lookup_mergeAttributes [OF dd m(3)]
    by (simp add: histogram_record_def map_assign_def)
qed

text \<open>
  C6. The claim: \<open>TransformMetrics\<close> returns normally on every payload, and a histogram,
  exponential-histogram or summary datapoint with no attribute still yields a record
  whose attribute map has the count and sum keys. For such a datapoint
  \<open>attributesToMap\<close> returns the \<open>nil\<close> map and the next statement,
  \<open>attrs["count"] = dp.Count()\<close>, writes to it: the call panics and no record is
  returned. Gauge and sum datapoints never write to that map.
\<close>

theorem TransformMetrics_panics_without_attributes:
  "TransformMetrics (one_metric bare_histogram) = Inl AssignmentToEntryInNilMap \<and>
   TransformMetrics (one_metric bare_exponential_histogram) = Inl AssignmentToEntryInNilMap \<and>
   TransformMetrics (one_metric bare_summary) = Inl AssignmentToEntryInNilMap"
  by (simp add: TransformMetrics_def transform_resource_def transform_metric_def one_metric_def
      bare_histogram_def bare_exponential_histogram_def bare_summary_def
      transformHistogram_def transformExponentialHistogram_def transformSummary_def
      histogram_record_bare exponential_record_bare summary_record_bare)

section \<open>Log batches\<close>

lemma accepted_Cons:
  "accepted drv (lr # lrs) = (if drv (InsertLogRow lr) then [] else lr # accepted drv lrs)"
  by (simp add: accepted_def)

lemma accepted_all: "(\<forall>lr\<in>set lrs. \<not> drv (InsertLogRow lr)) \<Longrightarrow> accepted drv lrs = lrs"
  by (simp add: accepted_def)

lemma exec_logs_eq:
  "exec_logs drv tx lrs =
     (if \<exists>lr\<in>set lrs. drv (InsertLogRow lr) then Some (Error ''failed to insert log'') else None,
      tx\<lparr>logs_table := logs_table tx @ stored_rows (logs_id_seq tx) (accepted drv lrs),
         logs_id_seq := logs_id_seq tx + int (length (accepted drv lrs))\<rparr>)"
proof (induction lrs arbitrary: tx)
  case Nil
  show ?case by (simp add: accepted_def)
next
  case (Cons lr lrs)
  show ?case
    by (cases "drv (InsertLogRow lr)") (simp_all add: Cons.IH accepted_Cons add.assoc)
qed

lemma processLogs_eq:
  "processLogs drv d lrs =
     (if \<exists>lr\<in>set lrs. drv (InsertLogRow lr) then Some (Error ''failed to insert log'') else None,
      d\<lparr>logs_table := logs_table d @ stored_rows (logs_id_seq d) (accepted drv lrs),
         logs_id_seq := logs_id_seq d + int (length (accepted drv lrs))\<rparr>)"
proof (induction lrs arbitrary: d)
  case Nil
  show ?case by (simp add: accepted_def)
next
  case (Cons lr lrs)
  show ?case
    by (cases "drv (InsertLogRow lr)") (simp_all add: Cons.IH accepted_Cons InsertLog_def add.assoc)
qed

lemma InsertLogs_failure:
  "fst (InsertLogs drv d lrs) \<noteq> None \<Longrightarrow>
   snd (InsertLogs drv d lrs) = d\<lparr>logs_id_seq := logs_id_seq (snd (InsertLogs drv d lrs))\<rparr>"
  by (auto simp: InsertLogs_def split: prod.splits option.splits if_splits)

lemma InsertLogs_success:
  assumes "fst (InsertLogs drv d lrs) = None"
  shows "logs_table (snd (InsertLogs drv d lrs)) = logs_table d @ stored_rows (logs_id_seq d) lrs"
proof (cases "lrs = []")
  case True
  then show ?thesis by (simp add: InsertLogs_def)
next
  case False
  with assms have ok: "\<not> drv BeginTx" "\<forall>lr\<in>set lrs. \<not> drv (InsertLogRow lr)" "\<not> drv Commit"
    by (auto simp: InsertLogs_def exec_logs_eq split: if_splits)
  with False show ?thesis
    by (simp add: InsertLogs_def exec_logs_eq accepted_all)
qed

text \<open>
  C3, the claim as stated: a batch of log records that arrives through one OTLP log
  ingestion call is stored all or nothing. The ingestion call is \<open>processLogs\<close>, which
  calls \<open>InsertLog\<close> record by record, each statement committed on its own: when the
  driver refuses the second of two records, the call returns the error and the first
  record stays in the table.
\<close>

theorem processLogs_keeps_records_before_failure:
  "fst (processLogs (refuses_body ''second'') empty_db two_logs) = Some (Error ''failed to insert log'') \<and>
   logs_table empty_db = [] \<and>
   logs_table (snd (processLogs (refuses_body ''second'') empty_db two_logs)) =
     [(example_log ''first'' None)\<lparr>LogRecord_ID := 1\<rparr>]"
  by code_simp

text \<open>
  C3, amended: the batch insert of the store, \<open>InsertLogs\<close>, is all or nothing: when it
  returns an error every table is as before (of the database only the id sequence can
  have moved), and when it returns none every record of the batch is a row, in order. An
  OTLP log ingestion call does not go through it: \<open>processLogs\<close> inserts record by
  record, returns an error exactly when the driver fails on some record, and leaves as
  rows the records before the first such one.
\<close>

theorem InsertLogs_all_or_nothing_processLogs_prefix:
  "(fst (InsertLogs drv d lrs) \<noteq> None \<longrightarrow>
      snd (InsertLogs drv d lrs) = d\<lparr>logs_id_seq := logs_id_seq (snd (InsertLogs drv d lrs))\<rparr>) \<and>
   (fst (InsertLogs drv d lrs) = None \<longrightarrow>
      logs_table (snd (InsertLogs drv d lrs)) = logs_table d @ stored_rows (logs_id_seq d) lrs) \<and>
   (fst (processLogs drv d lrs) \<noteq> None \<longleftrightarrow> (\<exists>lr\<in>set lrs. drv (InsertLogRow lr))) \<and>
   logs_table (snd (processLogs drv d lrs)) =
      logs_table d @ stored_rows (logs_id_seq d) (accepted drv lrs)"
  using InsertLogs_failure [of drv d lrs] InsertLogs_success [of drv d lrs]
  by (simp add: processLogs_eq)

theorem InsertLogs_all_or_nothing_witness:
  "fst (InsertLogs (refuses_body ''second'') empty_db two_logs) \<noteq> None \<and>
   snd (InsertLogs (refuses_body ''second'') empty_db two_logs) = empty_db\<lparr>logs_id_seq := 2\<rparr> \<and>
   fst (InsertLogs never_fails empty_db two_logs) = None \<and>
   logs_table (snd (InsertLogs never_fails empty_db two_logs)) =
     [(example_log ''first'' None)\<lparr>LogRecord_ID := 1\<rparr>, (example_log ''second'' None)\<lparr>LogRecord_ID := 2\<rparr>]"
proof -
  have a: "fst (InsertLogs (refuses_body ''second'') empty_db two_logs) \<noteq> None"
    by code_simp
  have b: "fst (InsertLogs never_fails empty_db two_logs) = None"
    by code_simp
  have c: "logs_table empty_db @ stored_rows (logs_id_seq empty_db) two_logs =
      [(example_log ''first'' None)\<lparr>LogRecord_ID := 1\<rparr>, (example_log ''second'' None)\<lparr>LogRecord_ID := 2\<rparr>]"
    by (simp add: empty_db_def two_logs_def)
  have s: "logs_id_seq (snd (InsertLogs (refuses_body ''second'') empty_db two_logs)) = 2"
    by code_simp
  note failing = InsertLogs_all_or_nothing_processLogs_prefix
    [of "refuses_body ''second''" empty_db two_logs, THEN conjunct1, rule_format, OF a]
  note passing = InsertLogs_all_or_nothing_processLogs_prefix
    [of never_fails empty_db two_logs, THEN conjunct2, THEN conjunct1, rule_format, OF b]
  have e: "snd (InsertLogs (refuses_body ''second'') empty_db two_logs) = empty_db\<lparr>logs_id_seq := 2\<rparr>"
    by (subst failing) (simp only: s)
  have f: "logs_table (snd (InsertLogs never_fails empty_db two_logs)) =
     [(example_log ''first'' None)\<lparr>LogRecord_ID := 1\<rparr>, (example_log ''second'' None)\<lparr>LogRecord_ID := 2\<rparr>]"
    by (simp only: passing c)
  from a e b f show ?thesis by blast
qed

section \<open>Counting logs\<close>

text \<open>
  The condition \<open>CountLogs\<close> builds is the one \<open>GetLogs\<close> builds for the same filters
  with the trace id cleared: the two agree exactly on the filter sets without a trace id.
\<close>

lemma where_without_trace_id:
  "CountLogs_where filters = GetLogs_where (filters\<lparr>LogFilters_TraceID := []\<rparr>)"
  by (simp add: fun_eq_iff CountLogs_where_def GetLogs_where_def)

lemma CountLogs_counts_without_trace_id:
  "CountLogs drv d filters = Inr n \<Longrightarrow>
   n = int (length (GetLogs_unpaged d (filters\<lparr>LogFilters_TraceID := []\<rparr>)))"
  by (auto simp: CountLogs_def GetLogs_unpaged_def order_by_timestamp_desc_def where_without_trace_id
      split: if_splits)

text \<open>
  C4. The claim: for every filter set \<open>CountLogs\<close> returns the number of rows \<open>GetLogs\<close>
  returns with the same filters and no pagination, the two applying the same predicates,
  the trace id filter included. \<open>CountLogs\<close> builds its \<open>WHERE\<close> clause without the
  \<open>trace_id = ?\<close> condition that \<open>GetLogs\<close> adds: with two stored logs of two traces and
  a filter on the trace id of the first, \<open>GetLogs\<close> selects one row and \<open>CountLogs\<close>
  returns 2.
\<close>

theorem CountLogs_ignores_trace_id:
  "GetLogs never_fails two_traces_db trace_filter =
     Inr [(example_log ''first'' (Some ''0a''))\<lparr>LogRecord_ID := 1\<rparr>] \<and>
   length (GetLogs_unpaged two_traces_db trace_filter) = 1 \<and>
   CountLogs never_fails two_traces_db trace_filter = Inr 2"
  by code_simp

section \<open>Metric aggregation\<close>

lemma to_timestamp_of_int: "to_timestamp (real_of_int n) = n * 1000000000"
proof -
  have "round (real_of_int n * 1000000) = round (real_of_int (n * 1000000))"
    by simp
  also have "\<dots> = n * 1000000"
    by (rule round_of_int)
  finally show ?thesis
    by (simp add: to_timestamp_def)
qed

lemma bucket_expr_sql_divide:
  assumes "bucketSeconds \<noteq> 0"
  shows "bucket_expr sql_divide bucketSeconds t = CAST_BIGINT (EXTRACT_epoch t) * 1000000000"
proof -
  have "sql_divide (CAST_BIGINT (EXTRACT_epoch t)) bucketSeconds * real_of_int bucketSeconds =
        real_of_int (CAST_BIGINT (EXTRACT_epoch t))"
    using assms by (simp add: sql_divide_def)
  then show ?thesis
    by (simp only: bucket_expr_def to_timestamp_of_int)
qed

lemma bucket_expr_sql_integer_divide:
  "bucket_expr sql_integer_divide bucketSeconds t =
     (CAST_BIGINT (EXTRACT_epoch t) sdiv bucketSeconds) * bucketSeconds * 1000000000"
proof -
  have "sql_integer_divide (CAST_BIGINT (EXTRACT_epoch t)) bucketSeconds * real_of_int bucketSeconds =
        real_of_int ((CAST_BIGINT (EXTRACT_epoch t) sdiv bucketSeconds) * bucketSeconds)"
    by (simp add: sql_integer_divide_def)
  then show ?thesis
    by (simp only: bucket_expr_def to_timestamp_of_int)
qed

lemma CAST_BIGINT_of_int: "CAST_BIGINT (real_of_int n) = n"
  by (simp add: CAST_BIGINT_def)

lemma epoch_example_metric:
  "CAST_BIGINT (EXTRACT_epoch (MetricRecord_Timestamp (example_metric i))) = 1700000100 + i * 60"
proof -
  have "EXTRACT_epoch (MetricRecord_Timestamp (example_metric i)) = real_of_int (1700000100 + i * 60)"
    by (simp add: EXTRACT_epoch_def example_metric_def)
  then show ?thesis
    by (simp only: CAST_BIGINT_of_int)
qed

lemma selected_example:
  "filter (Aggregate_where (example_request a)) (metrics_table ten_points_db) =
     [example_metric 0, example_metric 1, example_metric 2, example_metric 3, example_metric 4,
      example_metric 5, example_metric 6, example_metric 7, example_metric 8, example_metric 9]"
  by (simp add: ten_points_db_def Aggregate_where_def example_request_def example_metric_def)

lemma value_example_metric: "MetricRecord_Value (example_metric i) = Some (real_of_int (100 + i * 10))"
  by (simp add: example_metric_def)

lemma bucket_size_example: "parseBucketSizeToSeconds (req_BucketSize (example_request a)) = 300"
  by (simp add: parseBucketSizeToSeconds_def example_request_def)

lemma aggregation_example: "req_Aggregation (example_request a) = a"
  by (simp add: example_request_def)

lemma rows_example:
  "aggregate_rows slash ten_points_db (example_request a) =
     map (\<lambda>b. (b, sql_aggregate (aggFunc a)
                   (map MetricRecord_Value
                     (filter (\<lambda>row. bucket_expr slash 300 (MetricRecord_Timestamp row) = b)
                       [example_metric 0, example_metric 1, example_metric 2, example_metric 3,
                        example_metric 4, example_metric 5, example_metric 6, example_metric 7,
                        example_metric 8, example_metric 9]))))
       (sort (remdups (map (\<lambda>row. bucket_expr slash 300 (MetricRecord_Timestamp row))
          [example_metric 0, example_metric 1, example_metric 2, example_metric 3,
           example_metric 4, example_metric 5, example_metric 6, example_metric 7,
           example_metric 8, example_metric 9])))"
  by (simp only: aggregate_rows_def Let_def selected_example bucket_size_example aggregation_example)

lemma rows_divide:
  "aggregate_rows sql_divide ten_points_db (example_request a) =
     [(1700000100000000000, sql_aggregate (aggFunc a) [Some 100]),
      (1700000160000000000, sql_aggregate (aggFunc a) [Some 110]),
      (1700000220000000000, sql_aggregate (aggFunc a) [Some 120]),
      (1700000280000000000, sql_aggregate (aggFunc a) [Some 130]),
      (1700000340000000000, sql_aggregate (aggFunc a) [Some 140]),
      (1700000400000000000, sql_aggregate (aggFunc a) [Some 150]),
      (1700000460000000000, sql_aggregate (aggFunc a) [Some 160]),
      (1700000520000000000, sql_aggregate (aggFunc a) [Some 170]),
      (1700000580000000000, sql_aggregate (aggFunc a) [Some 180]),
      (1700000640000000000, sql_aggregate (aggFunc a) [Some 190])]"
  by (simp add: rows_example bucket_expr_sql_divide epoch_example_metric value_example_metric)

lemma rows_integer_divide:
  "aggregate_rows sql_integer_divide ten_points_db (example_request a) =
     [(1700000100000000000, sql_aggregate (aggFunc a) [Some 100, Some 110, Some 120, Some 130, Some 140]),
      (1700000400000000000, sql_aggregate (aggFunc a) [Some 150, Some 160, Some 170, Some 180, Some 190])]"
  by (simp add: rows_example bucket_expr_sql_integer_divide epoch_example_metric value_example_metric
      signed_divide_int_def)

lemma integer_division_two_buckets:
  "buckets_and_values (AggregateMetrics_with sql_integer_divide never_fails ten_points_db (example_request ''avg'')) =
     [(1700000100000000000, 120), (1700000400000000000, 170)] \<and>
   buckets_and_values (AggregateMetrics_with sql_integer_divide never_fails ten_points_db (example_request ''sum'')) =
     [(1700000100000000000, 600), (1700000400000000000, 850)]"
  by (simp add: AggregateMetrics_with_def never_fails_def rows_integer_divide buckets_and_values_def
      sql_aggregate_def aggFunc_def)

text \<open>
  C5. The claim: \<open>AggregateMetrics\<close> puts each selected row into the bucket
  \<open>floor(epoch_seconds / bucket_width) * bucket_width\<close>, so that ten points one minute
  apart from a 5-minute-aligned time, with 5-minute buckets, give two buckets of five
  points each. The bucket expression of the query divides with \<open>/\<close>, which the engine
  evaluates as a floating-point division (\<open>bucket_expr_sql_divide\<close>: dividing by the
  width and multiplying by it gives back the row's own second, whatever the width). The
  ten points come back as ten buckets of one point each, under \<open>avg\<close> and under \<open>sum\<close>;
  with the engine's integer division \<open>//\<close> in place of \<open>/\<close> the same query gives the
  two buckets of the claim (\<open>integer_division_two_buckets\<close>).
\<close>

theorem AggregateMetrics_ten_points_ten_buckets:
  "buckets_and_values (AggregateMetrics never_fails ten_points_db (example_request ''avg'')) =
     [(1700000100000000000, 100), (1700000160000000000, 110), (1700000220000000000, 120),
      (1700000280000000000, 130), (1700000340000000000, 140), (1700000400000000000, 150),
      (1700000460000000000, 160), (1700000520000000000, 170), (1700000580000000000, 180),
      (1700000640000000000, 190)] \<and>
   buckets_and_values (AggregateMetrics never_fails ten_points_db (example_request ''sum'')) =
     buckets_and_values (AggregateMetrics never_fails ten_points_db (example_request ''avg''))"
  by (simp add: AggregateMetrics_def AggregateMetrics_with_def never_fails_def rows_divide
      buckets_and_values_def sql_aggregate_def aggFunc_def)

section \<open>Upserting a trace, inserting a span\<close>

lemma insert_spans_traces: "traces_table (snd (insert_spans drv tx sps)) = traces_table tx"
  by (induction sps arbitrary: tx) (auto simp: insertSpan_def split: prod.splits option.splits)

lemma find_upsert_trace:
  "find (\<lambda>row. Trace_TraceID row = Trace_TraceID t) rows = Some old \<Longrightarrow>
   find (\<lambda>row. Trace_TraceID row = Trace_TraceID t) (upsert_trace t rows) =
     Some (old\<lparr>Trace_EndTime := Trace_EndTime t, Trace_DurationMs := Trace_DurationMs t,
               Trace_SpanCount := Trace_SpanCount t, Trace_ErrorCount := Trace_ErrorCount t\<rparr>)"
  by (induction rows) (auto split: if_splits)

lemma others_upsert_trace:
  "find (\<lambda>row. Trace_TraceID row = Trace_TraceID t) rows = Some old \<Longrightarrow>
   filter (\<lambda>row. Trace_TraceID row \<noteq> Trace_TraceID t) (upsert_trace t rows) =
   filter (\<lambda>row. Trace_TraceID row \<noteq> Trace_TraceID t) rows"
  by (induction rows) (auto split: if_splits)

lemma length_upsert_trace:
  "find (\<lambda>row. Trace_TraceID row = Trace_TraceID t) rows = Some old \<Longrightarrow>
   length (upsert_trace t rows) = length rows"
  by (induction rows) (auto split: if_splits)

lemma InsertTrace_success:
  "fst (InsertTrace drv d t) = None \<Longrightarrow>
   traces_table (snd (InsertTrace drv d t)) = upsert_trace t (traces_table d)"
  using insert_spans_traces [of drv "d\<lparr>traces_table := upsert_trace t (traces_table d)\<rparr>" "Trace_Spans t"]
  by (auto simp: InsertTrace_def split: if_splits prod.splits option.splits)

lemma InsertTrace_failure:
  "fst (InsertTrace drv d t) \<noteq> None \<Longrightarrow> snd (InsertTrace drv d t) = d"
  by (auto simp: InsertTrace_def split: if_splits prod.splits option.splits)

text \<open>
  C7. When \<open>InsertTrace\<close> is called with a trace id that has a row in \<open>traces\<close> and
  returns no error, the row of that id is the earlier row with \<open>end_time\<close>,
  \<open>duration_ms\<close>, \<open>span_count\<close> and \<open>error_count\<close> replaced by the values of the call;
  its \<open>trace_id\<close>, \<open>service_name\<close>, \<open>operation_name\<close>, \<open>start_time\<close>, \<open>status_code\<close>
  and \<open>attributes\<close> are those of the earlier row (the attribute maps are not merged). No
  row is added and the rows of other trace ids stay as they were. When it returns an
  error, the transaction is rolled back and the database is as before.
\<close>

theorem InsertTrace_existing_trace_id:
  assumes "find (\<lambda>row. Trace_TraceID row = Trace_TraceID t) (traces_table d) = Some old"
  shows "(fst (InsertTrace drv d t) = None \<longrightarrow>
            find (\<lambda>row. Trace_TraceID row = Trace_TraceID t) (traces_table (snd (InsertTrace drv d t))) =
              Some (old\<lparr>Trace_EndTime := Trace_EndTime t, Trace_DurationMs := Trace_DurationMs t,
                        Trace_SpanCount := Trace_SpanCount t, Trace_ErrorCount := Trace_ErrorCount t\<rparr>) \<and>
            filter (\<lambda>row. Trace_TraceID row \<noteq> Trace_TraceID t) (traces_table (snd (InsertTrace drv d t))) =
              filter (\<lambda>row. Trace_TraceID row \<noteq> Trace_TraceID t) (traces_table d) \<and>
            length (traces_table (snd (InsertTrace drv d t))) = length (traces_table d)) \<and>
         (fst (InsertTrace drv d t) \<noteq> None \<longrightarrow> snd (InsertTrace drv d t) = d)"
  using assms
  by (simp add: InsertTrace_success InsertTrace_failure find_upsert_trace others_upsert_trace
      length_upsert_trace)

theorem InsertTrace_existing_trace_id_witness:
  "find (\<lambda>row. Trace_TraceID row = Trace_TraceID later_batch) (traces_table one_trace_db) = Some stored_trace \<and>
   fst (InsertTrace never_fails one_trace_db later_batch) = None \<and>
   find (\<lambda>row. Trace_TraceID row = Trace_TraceID later_batch)
     (traces_table (snd (InsertTrace never_fails one_trace_db later_batch))) =
     Some \<lparr>Trace_TraceID = ''00000000000000000000000000000001'',
           Trace_ServiceName = ''svc1'',
           Trace_OperationName = ''GET /a'',
           Trace_StartTime = 0,
           Trace_EndTime = 30000000,
           Trace_DurationMs = 25,
           Trace_SpanCount = 3,
           Trace_ErrorCount = 1,
           Trace_StatusCode = 0,
           Trace_Attributes = Some [(''service.name'', IStr ''svc1'')],
           Trace_Spans = []\<rparr> \<and>
   length (traces_table (snd (InsertTrace never_fails one_trace_db later_batch))) = 1"
proof -
  have a: "find (\<lambda>row. Trace_TraceID row = Trace_TraceID later_batch) (traces_table one_trace_db) = Some stored_trace"
    by (simp add: one_trace_db_def empty_db_def stored_trace_def later_batch_def)
  have b: "fst (InsertTrace never_fails one_trace_db later_batch) = None"
    by (simp add: InsertTrace_def never_fails_def later_batch_def)
  have c: "length (traces_table one_trace_db) = 1"
    by (simp add: one_trace_db_def empty_db_def)
  have d: "stored_trace\<lparr>Trace_EndTime := Trace_EndTime later_batch, Trace_DurationMs := Trace_DurationMs later_batch,
      Trace_SpanCount := Trace_SpanCount later_batch, Trace_ErrorCount := Trace_ErrorCount later_batch\<rparr> =
     \<lparr>Trace_TraceID = ''00000000000000000000000000000001'',
       Trace_ServiceName = ''svc1'',
       Trace_OperationName = ''GET /a'',
       Trace_StartTime = 0,
       Trace_EndTime = 30000000,
       Trace_DurationMs = 25,
       Trace_SpanCount = 3,
       Trace_ErrorCount = 1,
       Trace_StatusCode = 0,
       Trace_Attributes = Some [(''service.name'', IStr ''svc1'')],
       Trace_Spans = []\<rparr>"
    by (simp add: stored_trace_def later_batch_def)
  note e = InsertTrace_existing_trace_id [OF a, of never_fails, THEN conjunct1, rule_format, OF b]
  from e [THEN conjunct1] have f: "find (\<lambda>row. Trace_TraceID row = Trace_TraceID later_batch)
          (traces_table (snd (InsertTrace never_fails one_trace_db later_batch))) =
        Some (stored_trace\<lparr>Trace_EndTime := Trace_EndTime later_batch, Trace_DurationMs := Trace_DurationMs later_batch,
          Trace_SpanCount := Trace_SpanCount later_batch, Trace_ErrorCount := Trace_ErrorCount later_batch\<rparr>)"
    .
  from e [THEN conjunct2, THEN conjunct2] have g: "length (traces_table (snd (InsertTrace never_fails one_trace_db later_batch))) =
      length (traces_table one_trace_db)"
    .
  show ?thesis
    using a b f g by (simp only: c d simp_thms)
qed

text \<open>
  C8. Inserting a span whose \<open>span_id\<close> already has a row in \<open>spans\<close> leaves the database,
  and with it every column of the stored row, as it was; and the insert returns no error
  whenever the driver runs the statement: the conflict itself is not an error.
\<close>

theorem insertSpan_existing_span_id:
  assumes "Span_SpanID sp \<in> set (map Span_SpanID (spans_table tx))"
  shows "snd (insertSpan drv tx sp) = tx \<and>
         (\<not> drv (InsertSpanRow sp) \<longrightarrow> insertSpan drv tx sp = (None, tx))"
  using assms by (simp add: insertSpan_def)

theorem insertSpan_existing_span_id_witness:
  "Span_SpanID (stored_span\<lparr>Span_OperationName := ''other''\<rparr>) \<in> set (map Span_SpanID (spans_table one_trace_db)) \<and>
   \<not> never_fails (InsertSpanRow (stored_span\<lparr>Span_OperationName := ''other''\<rparr>)) \<and>
   insertSpan never_fails one_trace_db (stored_span\<lparr>Span_OperationName := ''other''\<rparr>) = (None, one_trace_db) \<and>
   spans_table one_trace_db = [stored_span]"
proof -
  have a: "Span_SpanID (stored_span\<lparr>Span_OperationName := ''other''\<rparr>) \<in> set (map Span_SpanID (spans_table one_trace_db))"
    by (simp add: one_trace_db_def empty_db_def)
  have b: "\<not> never_fails (InsertSpanRow (stored_span\<lparr>Span_OperationName := ''other''\<rparr>))"
    by (simp add: never_fails_def)
  have c: "spans_table one_trace_db = [stored_span]"
    by (simp add: one_trace_db_def empty_db_def)
  show ?thesis
    using a b c insertSpan_existing_span_id [OF a, of never_fails] by simp
qed

section \<open>Merging attribute maps\<close>

lemma range_put_eq:
  "r < length h \<Longrightarrow> range_put r kvs h = h[r := put_all kvs (h ! r)]"
proof (induction kvs arbitrary: h)
  case Nil
  then show ?case by (simp add: range_put_def put_all_def)
next
  case (Cons kv kvs)
  obtain k v where kv: "kv = (k, v)" by (cases kv)
  have "range_put r (kv # kvs) h = range_put r kvs (h[r := AList.update k v (h ! r)])"
    by (simp add: range_put_def kv)
  also have "\<dots> = h[r := put_all kvs (AList.update k v (h ! r))]"
    using Cons.prems by (simp add: Cons.IH)
  finally show ?case by (simp add: kv put_all_Cons)
qed

lemma mergeAttributes_store_eq:
  assumes "valid_ref h m1" "valid_ref h m2"
  shows "mergeAttributes_store h m1 m2 =
           (h @ [put_all (deref h m2) (put_all (deref h m1) [])], Some (length h))"
proof -
  have d1: "deref (h @ [kvs]) m1 = deref h m1" for kvs
    using assms(1) by (auto simp: deref_def valid_ref_def nth_append split: option.splits)
  have d2: "deref (h @ [kvs]) m2 = deref h m2" for kvs
    using assms(2) by (auto simp: deref_def valid_ref_def nth_append split: option.splits)
  show ?thesis
    by (simp add: mergeAttributes_store_def Let_def range_put_eq d1 d2)
qed

text \<open>
  C9. For any two attribute maps \<open>m1\<close> and \<open>m2\<close> of a store, \<open>mergeAttributes\<close> returns a
  map at a new address; every map the store held before, \<open>m1\<close> and \<open>m2\<close> among them, is
  as it was; the new map has the keys of \<open>m1\<close> and of \<open>m2\<close>, with the value of \<open>m2\<close> for
  a key of \<open>m2\<close> and the value of \<open>m1\<close> for any other; and it is the map that
  \<open>mergeAttributes\<close>, read as a function on map values, returns.
\<close>

theorem mergeAttributes_new_map_inputs_unchanged:
  assumes "valid_ref h m1" and "valid_ref h m2" and "wf_heap h"
  shows "snd (mergeAttributes_store h m1 m2) = Some (length h) \<and>
         length (fst (mergeAttributes_store h m1 m2)) = Suc (length h) \<and>
         take (length h) (fst (mergeAttributes_store h m1 m2)) = h \<and>
         fst ` set (fst (mergeAttributes_store h m1 m2) ! length h) =
           fst ` set (deref h m1) \<union> fst ` set (deref h m2) \<and>
         map_of (fst (mergeAttributes_store h m1 m2) ! length h) =
           map_of (deref h m1) ++ map_of (deref h m2) \<and>
         Some (fst (mergeAttributes_store h m1 m2) ! length h) =
           mergeAttributes (value_of h m1) (value_of h m2)"
proof -
  have w: "distinct (map fst (deref h m))" if "valid_ref h m" for m
    using that assms(3)
    by (auto simp: deref_def valid_ref_def wf_heap_def list_all_length split: option.splits)
  have e: "entries (value_of h m) = deref h m" for m
    by (simp add: entries_def value_of_def deref_def split: option.splits)
  have m: "map_of (put_all (deref h m2) (put_all (deref h m1) [])) = map_of (deref h m1) ++ map_of (deref h m2)"
    using w [OF assms(1)] w [OF assms(2)] by (simp add: map_of_put_all)
  have "dom (map_of (put_all (deref h m2) (put_all (deref h m1) []))) =
        dom (map_of (deref h m1)) \<union> dom (map_of (deref h m2))"
    by (simp add: m Un_commute)
  then have k: "fst ` set (put_all (deref h m2) (put_all (deref h m1) [])) =
        fst ` set (deref h m1) \<union> fst ` set (deref h m2)"
    by (simp add: dom_map_of_conv_image_fst)
  show ?thesis
    using assms(1,2) m k by (simp add: mergeAttributes_store_eq mergeAttributes_def e)
qed

theorem mergeAttributes_new_map_witness:
  "valid_ref two_maps (Some 0) \<and> valid_ref two_maps (Some 1) \<and> wf_heap two_maps \<and>
   mergeAttributes_store two_maps (Some 0) (Some 1) =
     (two_maps @ [[(''a'', IInt 2), (''b'', IStr ''x''), (''c'', IBool True)]], Some 2)"
proof -
  have a: "valid_ref two_maps (Some 0)" and b: "valid_ref two_maps (Some 1)"
    by (simp_all add: valid_ref_def two_maps_def)
  have c: "wf_heap two_maps"
    by (simp add: wf_heap_def two_maps_def)
  have d: "mergeAttributes (value_of two_maps (Some 0)) (value_of two_maps (Some 1)) =
      Some [(''a'', IInt 2), (''b'', IStr ''x''), (''c'', IBool True)]"
    by (simp add: mergeAttributes_def value_of_def two_maps_def entries_def put_all_def)
  have l: "length two_maps = 2"
    by (simp add: two_maps_def)
  from mergeAttributes_new_map_inputs_unchanged [OF a b c] d l
  have r: "snd (mergeAttributes_store two_maps (Some 0) (Some 1)) = Some 2"
    and n: "length (fst (mergeAttributes_store two_maps (Some 0) (Some 1))) = 3"
    and t: "take 2 (fst (mergeAttributes_store two_maps (Some 0) (Some 1))) = two_maps"
    and v: "fst (mergeAttributes_store two_maps (Some 0) (Some 1)) ! 2 =
              [(''a'', IInt 2), (''b'', IStr ''x''), (''c'', IBool True)]"
    by simp_all
  have "fst (mergeAttributes_store two_maps (Some 0) (Some 1)) =
        take 2 (fst (mergeAttributes_store two_maps (Some 0) (Some 1))) @
        [fst (mergeAttributes_store two_maps (Some 0) (Some 1)) ! 2]"
    using n by (metis Suc_1 eval_nat_numeral(3) lessI take_Suc_conv_app_nth take_all order_refl)
  with t v have "fst (mergeAttributes_store two_maps (Some 0) (Some 1)) =
      two_maps @ [[(''a'', IInt 2), (''b'', IStr ''x''), (''c'', IBool True)]]"
    by simp
  with r a b c show ?thesis
    by (simp add: prod_eq_iff)
qed

section \<open>The compare endpoint\<close>

lemma fetch_traces_eq:
  "fetch_traces drv d ids =
     (if fetched drv d ids = ids then (Inr (traces_of drv d ids), ids)
      else (Inl (ids ! length (fetched drv d ids)), take (Suc (length (fetched drv d ids))) ids))"
proof (induction ids)
  case Nil
  show ?case by (simp add: fetched_def traces_of_def)
next
  case (Cons traceID ids)
  show ?case
  proof (cases "GetTraceByID drv d traceID")
    case (Inl e)
    then show ?thesis by (simp add: fetched_def)
  next
    case (Inr t)
    then have f: "fetched drv d (traceID # ids) = traceID # fetched drv d ids"
      by (simp add: fetched_def)
    show ?thesis
      using Inr Cons.IH by (simp add: f traces_of_def)
  qed
qed

lemma CompareTraces_accepted:
  assumes "2 \<le> length ids" and "length ids \<le> 4"
  shows "CompareTraces drv d (Object (Some ids)) =
     (if fetched drv d ids = ids
      then (StatusOK (traces_of drv d ids) (compareTracesStats (traces_of drv d ids)), ids)
      else (StatusNotFound (ids ! length (fetched drv d ids)),
            take (Suc (length (fetched drv d ids))) ids))"
  using assms by (simp add: CompareTraces_def ShouldBindJSON_def fetch_traces_eq)

lemma CompareTraces_refused:
  assumes "length ids < 2 \<or> length ids > 4"
  shows "CompareTraces drv d (Object (Some ids)) =
           (StatusBadRequest ''Invalid request body. Must provide 2-4 trace_ids'', [])"
  using assms by (auto simp: CompareTraces_def ShouldBindJSON_def)

lemma CompareTraces_no_list:
  "CompareTraces drv d (Object None) =
     (StatusBadRequest ''Invalid request body. Must provide 2-4 trace_ids'', [])"
  "CompareTraces drv d Malformed =
     (StatusBadRequest ''Invalid request body. Must provide 2-4 trace_ids'', [])"
  by (simp_all add: CompareTraces_def ShouldBindJSON_def)

lemma fetch_traces_asked:
  "ids \<noteq> [] \<Longrightarrow> snd (fetch_traces drv d ids) \<noteq> [] \<and> hd (snd (fetch_traces drv d ids)) = hd ids"
  by (cases ids) (auto split: sum.splits prod.splits)

lemma GetTraceByID_stored:
  assumes "\<forall>call. \<not> drv call"
  shows "GetTraceByID drv d traceID =
           (case stored d traceID of None \<Rightarrow> Inl (Error ''trace not found'') | Some t \<Rightarrow> Inr t)"
  using assms by (simp add: GetTraceByID_def getSpansByTraceID_def stored_def split: option.splits)

lemma first_not_fetched:
  assumes "fetched drv d ids \<noteq> ids"
  shows "ids ! length (fetched drv d ids) \<in> set ids \<and>
         isl (GetTraceByID drv d (ids ! length (fetched drv d ids)))"
proof -
  let ?P = "\<lambda>traceID. \<not> isl (GetTraceByID drv d traceID)"
  have "takeWhile ?P ids = take (length (takeWhile ?P ids)) ids"
    by (rule takeWhile_eq_take)
  with assms have "length (takeWhile ?P ids) < length ids"
    by (metis fetched_def le_neq_implies_less length_takeWhile_le take_all order_refl)
  then show ?thesis
    using nth_length_takeWhile [of ?P ids] by (simp add: fetched_def)
qed

lemma CompareTraces_stored:
  assumes "2 \<le> length ids" and "length ids \<le> 4" and "\<forall>call. \<not> drv call"
  shows "if \<forall>traceID\<in>set ids. stored d traceID \<noteq> None
         then CompareTraces drv d (Object (Some ids)) =
                (StatusOK (map (\<lambda>traceID. the (stored d traceID)) ids)
                   (compareTracesStats (map (\<lambda>traceID. the (stored d traceID)) ids)), ids)
         else \<exists>traceID\<in>set ids. stored d traceID = None \<and>
                fst (CompareTraces drv d (Object (Some ids))) = StatusNotFound traceID"
proof (cases "\<forall>traceID\<in>set ids. stored d traceID \<noteq> None")
  case True
  then have f: "fetched drv d ids = ids"
    by (auto simp: fetched_def GetTraceByID_stored [OF assms(3)])
  from True have t: "traces_of drv d ids = map (\<lambda>traceID. the (stored d traceID)) ids"
    by (auto simp: traces_of_def GetTraceByID_stored [OF assms(3)])
  from True show ?thesis
    by (simp add: CompareTraces_accepted [OF assms(1,2)] f t)
next
  case False
  then have f: "fetched drv d ids \<noteq> ids"
    by (auto simp: fetched_def takeWhile_eq_all_conv GetTraceByID_stored [OF assms(3)]
        split: option.splits)
  from first_not_fetched [OF f]
  have "ids ! length (fetched drv d ids) \<in> set ids"
    and "stored d (ids ! length (fetched drv d ids)) = None"
    by (auto simp: GetTraceByID_stored [OF assms(3)] split: option.splits)
  with False f show ?thesis
    by (auto simp: CompareTraces_accepted [OF assms(1,2)])
qed

text \<open>
  C10. \<open>POST /api/traces/compare\<close> answers a payload whose \<open>trace_ids\<close> list has fewer
  than 2 or more than 4 entries with a client error (400) before any storage access: it
  asks the store for nothing, and its answer is the same whatever the driver and the
  database are. A payload that is not JSON of the request's shape, or has no
  \<open>trace_ids\<close>, is refused in the same way. A payload with 2 to 4 trace ids is never
  answered with that error: the handler fetches the traces with \<open>GetTraceByID\<close>, in
  the order of the list. If every fetch succeeds the answer is 200 with the fetched
  traces and their comparison, after one fetch per id; otherwise it is 404 with the
  first id whose fetch failed, after the fetches up to that one. When the driver fails
  no call, the fetched traces are what the store holds for the ids (the row of each
  with its spans), and a 404 names an id the store has no row for.
\<close>

theorem CompareTraces_trace_id_count:
  "(length ids < 2 \<or> length ids > 4 \<longrightarrow>
      snd (CompareTraces drv d (Object (Some ids))) = [] \<and>
      (\<exists>msg. fst (CompareTraces drv d (Object (Some ids))) = StatusBadRequest msg) \<and>
      CompareTraces drv d (Object (Some ids)) = CompareTraces drv' d' (Object (Some ids))) \<and>
   (2 \<le> length ids \<and> length ids \<le> 4 \<longrightarrow>
      snd (CompareTraces drv d (Object (Some ids))) \<noteq> [] \<and>
      hd (snd (CompareTraces drv d (Object (Some ids)))) = hd ids \<and>
      (\<forall>msg. fst (CompareTraces drv d (Object (Some ids))) \<noteq> StatusBadRequest msg) \<and>
      CompareTraces drv d (Object (Some ids)) =
        (if fetched drv d ids = ids
         then (StatusOK (traces_of drv d ids) (compareTracesStats (traces_of drv d ids)), ids)
         else (StatusNotFound (ids ! length (fetched drv d ids)),
               take (Suc (length (fetched drv d ids))) ids))) \<and>
   (2 \<le> length ids \<and> length ids \<le> 4 \<and> (\<forall>call. \<not> drv call) \<longrightarrow>
      (if \<forall>traceID\<in>set ids. stored d traceID \<noteq> None
       then CompareTraces drv d (Object (Some ids)) =
              (StatusOK (map (\<lambda>traceID. the (stored d traceID)) ids)
                 (compareTracesStats (map (\<lambda>traceID. the (stored d traceID)) ids)), ids)
       else \<exists>traceID\<in>set ids. stored d traceID = None \<and>
              fst (CompareTraces drv d (Object (Some ids))) = StatusNotFound traceID)) \<and>
   snd (CompareTraces drv d (Object None)) = [] \<and>
   (\<exists>msg. fst (CompareTraces drv d (Object None)) = StatusBadRequest msg) \<and>
   CompareTraces drv d (Object None) = CompareTraces drv' d' (Object None) \<and>
   snd (CompareTraces drv d Malformed) = [] \<and>
   (\<exists>msg. fst (CompareTraces drv d Malformed) = StatusBadRequest msg) \<and>
   CompareTraces drv d Malformed = CompareTraces drv' d' Malformed"
proof -
  have 1: "length ids < 2 \<or> length ids > 4 \<longrightarrow>
      snd (CompareTraces drv d (Object (Some ids))) = [] \<and>
      (\<exists>msg. fst (CompareTraces drv d (Object (Some ids))) = StatusBadRequest msg) \<and>
      CompareTraces drv d (Object (Some ids)) = CompareTraces drv' d' (Object (Some ids))"
    by (simp add: CompareTraces_refused)
  have 2: "2 \<le> length ids \<and> length ids \<le> 4 \<longrightarrow>
      snd (CompareTraces drv d (Object (Some ids))) \<noteq> [] \<and>
      hd (snd (CompareTraces drv d (Object (Some ids)))) = hd ids \<and>
      (\<forall>msg. fst (CompareTraces drv d (Object (Some ids))) \<noteq> StatusBadRequest msg) \<and>
      CompareTraces drv d (Object (Some ids)) =
        (if fetched drv d ids = ids
         then (StatusOK (traces_of drv d ids) (compareTracesStats (traces_of drv d ids)), ids)
         else (StatusNotFound (ids ! length (fetched drv d ids)),
               take (Suc (length (fetched drv d ids))) ids))"
  proof
    assume l: "2 \<le> length ids \<and> length ids \<le> 4"
    then have "ids \<noteq> []" by auto
    with l have "snd (CompareTraces drv d (Object (Some ids))) \<noteq> [] \<and>
      hd (snd (CompareTraces drv d (Object (Some ids)))) = hd ids \<and>
      (\<forall>msg. fst (CompareTraces drv d (Object (Some ids))) \<noteq> StatusBadRequest msg)"
      using fetch_traces_asked [of ids drv d]
      by (auto simp: CompareTraces_def ShouldBindJSON_def split: prod.splits sum.splits)
    moreover from l have "CompareTraces drv d (Object (Some ids)) =
        (if fetched drv d ids = ids
         then (StatusOK (traces_of drv d ids) (compareTracesStats (traces_of drv d ids)), ids)
         else (StatusNotFound (ids ! length (fetched drv d ids)),
               take (Suc (length (fetched drv d ids))) ids))"
      by (simp only: CompareTraces_accepted)
    ultimately show "snd (CompareTraces drv d (Object (Some ids))) \<noteq> [] \<and>
      hd (snd (CompareTraces drv d (Object (Some ids)))) = hd ids \<and>
      (\<forall>msg. fst (CompareTraces drv d (Object (Some ids))) \<noteq> StatusBadRequest msg) \<and>
      CompareTraces drv d (Object (Some ids)) =
        (if fetched drv d ids = ids
         then (StatusOK (traces_of drv d ids) (compareTracesStats (traces_of drv d ids)), ids)
         else (StatusNotFound (ids ! length (fetched drv d ids)),
               take (Suc (length (fetched drv d ids))) ids))"
      by (intro conjI) (erule conjunct1, erule conjunct2 [THEN conjunct1], erule conjunct2 [THEN conjunct2], assumption)
  qed
  have 9: "2 \<le> length ids \<and> length ids \<le> 4 \<and> (\<forall>call. \<not> drv call) \<longrightarrow>
      (if \<forall>traceID\<in>set ids. stored d traceID \<noteq> None
       then CompareTraces drv d (Object (Some ids)) =
              (StatusOK (map (\<lambda>traceID. the (stored d traceID)) ids)
                 (compareTracesStats (map (\<lambda>traceID. the (stored d traceID)) ids)), ids)
       else \<exists>traceID\<in>set ids. stored d traceID = None \<and>
              fst (CompareTraces drv d (Object (Some ids))) = StatusNotFound traceID)"
    using CompareTraces_stored [of ids drv d] by blast
  have 3: "snd (CompareTraces drv d (Object None)) = []"
    and 4: "\<exists>msg. fst (CompareTraces drv d (Object None)) = StatusBadRequest msg"
    and 5: "CompareTraces drv d (Object None) = CompareTraces drv' d' (Object None)"
    and 6: "snd (CompareTraces drv d Malformed) = []"
    and 7: "\<exists>msg. fst (CompareTraces drv d Malformed) = StatusBadRequest msg"
    and 8: "CompareTraces drv d Malformed = CompareTraces drv' d' Malformed"
    by (simp_all add: CompareTraces_no_list)
  from 1 2 9 3 4 5 6 7 8 show ?thesis by (intro conjI)
qed

theorem CompareTraces_trace_id_count_witness:
  "length [''00000000000000000000000000000001''] < 2 \<and>
   CompareTraces never_fails two_stored_traces_db (Object (Some [''00000000000000000000000000000001''])) =
     (StatusBadRequest ''Invalid request body. Must provide 2-4 trace_ids'', []) \<and>
   CompareTraces always_fails empty_db (Object (Some [''00000000000000000000000000000001''])) =
     (StatusBadRequest ''Invalid request body. Must provide 2-4 trace_ids'', []) \<and>
   2 \<le> length [''00000000000000000000000000000001'', ''00000000000000000000000000000002''] \<and>
   length [''00000000000000000000000000000001'', ''00000000000000000000000000000002''] \<le> 4 \<and>
   (\<forall>call. \<not> never_fails call) \<and>
   stored two_stored_traces_db ''00000000000000000000000000000001'' =
     Some (stored_trace\<lparr>Trace_Spans := [stored_span]\<rparr>) \<and>
   stored two_stored_traces_db ''00000000000000000000000000000002'' =
     Some (second_trace\<lparr>Trace_Spans := [second_span]\<rparr>) \<and>
   CompareTraces never_fails two_stored_traces_db
     (Object (Some [''00000000000000000000000000000001'', ''00000000000000000000000000000002''])) =
     (StatusOK [stored_trace\<lparr>Trace_Spans := [stored_span]\<rparr>, second_trace\<lparr>Trace_Spans := [second_span]\<rparr>]
        (Some \<lparr>comparison_count = 2, duration_ms_min = 10, duration_ms_max = 30, duration_ms_avg = 20,
               span_count_min = 1, span_count_max = 1, span_count_avg = 1, total_errors = 1\<rparr>),
      [''00000000000000000000000000000001'', ''00000000000000000000000000000002'']) \<and>
   CompareTraces never_fails two_stored_traces_db
     (Object (Some [''00000000000000000000000000000001'', ''00000000000000000000000000000003''])) =
     (StatusNotFound ''00000000000000000000000000000003'',
      [''00000000000000000000000000000001'', ''00000000000000000000000000000003'']) \<and>
   CompareTraces always_fails two_stored_traces_db
     (Object (Some [''00000000000000000000000000000001'', ''00000000000000000000000000000002''])) =
     (StatusNotFound ''00000000000000000000000000000001'', [''00000000000000000000000000000001''])"
proof -
  let ?one = "[''00000000000000000000000000000001'']"
  let ?two = "[''00000000000000000000000000000001'', ''00000000000000000000000000000002'']"
  have l1: "length ?one < 2 \<or> length ?one > 4" by simp
  have l2: "2 \<le> length ?two \<and> length ?two \<le> 4 \<and> (\<forall>call. \<not> never_fails call)"
    by (simp add: never_fails_def)
  have s1: "stored two_stored_traces_db ''00000000000000000000000000000001'' =
     Some (stored_trace\<lparr>Trace_Spans := [stored_span]\<rparr>)"
    by (simp add: stored_def two_stored_traces_db_def stored_trace_def stored_span_def second_span_def)
  have s2: "stored two_stored_traces_db ''00000000000000000000000000000002'' =
     Some (second_trace\<lparr>Trace_Spans := [second_span]\<rparr>)"
    by (simp add: stored_def two_stored_traces_db_def stored_trace_def second_trace_def
        stored_span_def second_span_def)
  have st: "compareTracesStats
      [stored_trace\<lparr>Trace_Spans := [stored_span]\<rparr>, second_trace\<lparr>Trace_Spans := [second_span]\<rparr>] =
      Some \<lparr>comparison_count = 2, duration_ms_min = 10, duration_ms_max = 30, duration_ms_avg = 20,
               span_count_min = 1, span_count_max = 1, span_count_avg = 1, total_errors = 1\<rparr>"
    by code_simp
  have a: "CompareTraces never_fails two_stored_traces_db (Object (Some ?one)) =
     (StatusBadRequest ''Invalid request body. Must provide 2-4 trace_ids'', [])"
    by code_simp
  note refused = CompareTraces_trace_id_count
    [of ?one never_fails two_stored_traces_db always_fails empty_db, THEN conjunct1, rule_format, OF l1]
  from refused [THEN conjunct2, THEN conjunct2] a
  have b: "CompareTraces always_fails empty_db (Object (Some ?one)) =
     (StatusBadRequest ''Invalid request body. Must provide 2-4 trace_ids'', [])"
    by simp
  note accepted = CompareTraces_trace_id_count
    [of ?two never_fails two_stored_traces_db never_fails two_stored_traces_db,
      THEN conjunct2, THEN conjunct2, THEN conjunct1, rule_format, OF l2]
  from accepted have c: "CompareTraces never_fails two_stored_traces_db (Object (Some ?two)) =
     (StatusOK [stored_trace\<lparr>Trace_Spans := [stored_span]\<rparr>, second_trace\<lparr>Trace_Spans := [second_span]\<rparr>]
        (Some \<lparr>comparison_count = 2, duration_ms_min = 10, duration_ms_max = 30, duration_ms_avg = 20,
               span_count_min = 1, span_count_max = 1, span_count_avg = 1, total_errors = 1\<rparr>),
      ?two)"
    by (simp add: s1 s2 st)
  have d: "CompareTraces never_fails two_stored_traces_db
     (Object (Some [''00000000000000000000000000000001'', ''00000000000000000000000000000003''])) =
     (StatusNotFound ''00000000000000000000000000000003'',
      [''00000000000000000000000000000001'', ''00000000000000000000000000000003''])"
    by code_simp
  have e: "CompareTraces always_fails two_stored_traces_db (Object (Some ?two)) =
     (StatusNotFound ''00000000000000000000000000000001'', [''00000000000000000000000000000001''])"
    by code_simp
  from l2 have n: "\<forall>call. \<not> never_fails call" by simp
  from n s1 s2 a b c d e show ?thesis by simp
qed

end
